theory Spec2Isabelle
  imports Complex_Main
begin

section \<open>JavaScript values\<close>

text \<open>
  The weather push client (\<^verbatim>\<open>src/index.js\<close>) works on whatever \<^verbatim>\<open>res.json()\<close> hands it,
  so the model starts from the values of the language.  A number is a double in the
  source; here its finite values are exact rationals (rounding to the nearest double and
  the distinction between the two zeros are not modelled), next to the three special
  values.  A string is a list of 8-bit characters.  An object is the list of its own
  properties, looked up from the front.
\<close>

datatype jsnum = NaN | PosInf | NegInf | Fin rat

datatype jsval =
    VUndefined
  | VNull
  | VBool bool
  | VNum jsnum
  | VStr string
  | VArr "jsval list"
  | VObj "(string \<times> jsval) list"

text \<open>What a \<^verbatim>\<open>throw\<close> carries.  Every raise of the source is an \<open>Inl\<close> of the model.\<close>

datatype exn =
    TypeError
  | RangeError
  | SyntaxError
  | FetchStatus nat
  | Rejected string

definition and_then :: "exn + 'a \<Rightarrow> ('a \<Rightarrow> exn + 'b) \<Rightarrow> exn + 'b" where
  "and_then m f = (case m of Inl e \<Rightarrow> Inl e | Inr x \<Rightarrow> f x)"

text \<open>
  The host: the clock read by \<^verbatim>\<open>new Date()\<close>, and the two built-in conversions whose
  result depends on the engine (\<^verbatim>\<open>Date.parse\<close> outside the ISO format) or on the
  digits of a double (\<^verbatim>\<open>Number.prototype.toString\<close>).
\<close>

record host =
  now :: int
  Date_parse :: "string \<Rightarrow> jsnum"
  Number_toString :: "jsnum \<Rightarrow> string"

subsection \<open>Property reads, truthiness, nullish coalescing\<close>

text \<open>
  \<^verbatim>\<open>v.k\<close> for the property names the client reads.  None of them is a property of a
  primitive's wrapper, of \<^verbatim>\<open>Array.prototype\<close> or of \<^verbatim>\<open>Object.prototype\<close>, so a read
  on anything but an object with that own property is \<^verbatim>\<open>undefined\<close>; a read on
  \<^verbatim>\<open>null\<close> or \<^verbatim>\<open>undefined\<close> throws.
\<close>

fun js_get :: "jsval \<Rightarrow> string \<Rightarrow> jsval" where
  "js_get (VObj kvs) k = (case map_of kvs k of None \<Rightarrow> VUndefined | Some v \<Rightarrow> v)"
| "js_get _ k = VUndefined"

definition member :: "jsval \<Rightarrow> string \<Rightarrow> exn + jsval" where
  "member v k = (if v = VNull \<or> v = VUndefined then Inl TypeError else Inr (js_get v k))"

fun truthy :: "jsval \<Rightarrow> bool" where
  "truthy VUndefined = False"
| "truthy VNull = False"
| "truthy (VBool b) = b"
| "truthy (VNum n) = (n \<noteq> NaN \<and> n \<noteq> Fin 0)"
| "truthy (VStr s) = (s \<noteq> [])"
| "truthy (VArr xs) = True"
| "truthy (VObj kvs) = True"

text \<open>\<^verbatim>\<open>a ?? b\<close>\<close>

definition nullish :: "jsval \<Rightarrow> jsval \<Rightarrow> jsval" where
  "nullish a b = (if a = VNull \<or> a = VUndefined then b else a)"

subsection \<open>StringToNumber\<close>

text \<open>
  The grammar of ECMAScript's StringNumericLiteral: optional white space around either
  nothing (the value 0), a signed decimal literal with optional fraction and exponent,
  \<^verbatim>\<open>Infinity\<close>, or an unsigned binary, octal or hexadecimal integer.  Anything else is
  \<^verbatim>\<open>NaN\<close>.
\<close>

definition is_ws :: "char \<Rightarrow> bool" where
  "is_ws c = (c \<in> set [CHR 0x09, CHR 0x0A, CHR 0x0B, CHR 0x0C, CHR 0x0D, CHR 0x20, CHR 0xA0])"

definition trim :: "string \<Rightarrow> string" where
  "trim s = rev (dropWhile is_ws (rev (dropWhile is_ws s)))"

definition digit :: "nat \<Rightarrow> char \<Rightarrow> nat option" where
  "digit radix c =
     (let n = (of_char c :: nat);
          d = (if 48 \<le> n \<and> n \<le> 57 then Some (n - 48)
               else if 97 \<le> n \<and> n \<le> 102 then Some (n - 87)
               else if 65 \<le> n \<and> n \<le> 70 then Some (n - 55)
               else None)
      in case d of None \<Rightarrow> None | Some v \<Rightarrow> if v < radix then Some v else None)"

definition is_digit :: "char \<Rightarrow> bool" where
  "is_digit c = (digit 10 c \<noteq> None)"

fun digits_val :: "nat \<Rightarrow> nat \<Rightarrow> string \<Rightarrow> nat option" where
  "digits_val radix acc [] = Some acc"
| "digits_val radix acc (c # cs) =
     (case digit radix c of
        None \<Rightarrow> None
      | Some d \<Rightarrow> digits_val radix (acc * radix + d) cs)"

definition numeral_of :: "nat \<Rightarrow> string \<Rightarrow> nat option" where
  "numeral_of radix s = (if s = [] then None else digits_val radix 0 s)"

definition NonDecimalIntegerLiteral :: "string \<Rightarrow> nat option" where
  "NonDecimalIntegerLiteral s =
     (case s of
        z # c # ds \<Rightarrow>
          if z \<noteq> CHR ''0'' then None
          else if c = CHR ''x'' \<or> c = CHR ''X'' then numeral_of 16 ds
          else if c = CHR ''o'' \<or> c = CHR ''O'' then numeral_of 8 ds
          else if c = CHR ''b'' \<or> c = CHR ''B'' then numeral_of 2 ds
          else None
      | _ \<Rightarrow> None)"

definition SignedInteger :: "string \<Rightarrow> int option" where
  "SignedInteger s =
     (case s of
        [] \<Rightarrow> None
      | c # t \<Rightarrow>
          if c = CHR ''+'' then map_option int (numeral_of 10 t)
          else if c = CHR ''-'' then map_option (\<lambda>n. - int n) (numeral_of 10 t)
          else map_option int (numeral_of 10 s))"

definition ExponentPart :: "string \<Rightarrow> int option" where
  "ExponentPart s =
     (case s of
        [] \<Rightarrow> Some 0
      | c # t \<Rightarrow> if c = CHR ''e'' \<or> c = CHR ''E'' then SignedInteger t else None)"

definition pow10 :: "int \<Rightarrow> rat" where
  "pow10 e = (if 0 \<le> e then 10 ^ nat e else 1 / 10 ^ nat (- e))"

definition StrUnsignedDecimalLiteral :: "string \<Rightarrow> jsnum" where
  "StrUnsignedDecimalLiteral s =
     (if s = ''Infinity'' then PosInf
      else
        let ip = takeWhile is_digit s;
            r1 = dropWhile is_digit s;
            fp = (case r1 of [] \<Rightarrow> [] | c # t \<Rightarrow> if c = CHR ''.'' then takeWhile is_digit t else []);
            r2 = (case r1 of [] \<Rightarrow> [] | c # t \<Rightarrow> if c = CHR ''.'' then dropWhile is_digit t else r1)
        in if ip = [] \<and> fp = [] then NaN
           else case (digits_val 10 0 (ip @ fp), ExponentPart r2) of
                  (Some m, Some e) \<Rightarrow> Fin (of_nat m * pow10 (e - int (length fp)))
                | _ \<Rightarrow> NaN)"

definition negate :: "jsnum \<Rightarrow> jsnum" where
  "negate n = (case n of NaN \<Rightarrow> NaN | PosInf \<Rightarrow> NegInf | NegInf \<Rightarrow> PosInf | Fin q \<Rightarrow> Fin (- q))"

definition StrDecimalLiteral :: "string \<Rightarrow> jsnum" where
  "StrDecimalLiteral s =
     (case s of
        [] \<Rightarrow> NaN
      | c # t \<Rightarrow>
          if c = CHR ''+'' then StrUnsignedDecimalLiteral t
          else if c = CHR ''-'' then negate (StrUnsignedDecimalLiteral t)
          else StrUnsignedDecimalLiteral s)"

definition StringToNumber :: "string \<Rightarrow> jsnum" where
  "StringToNumber s =
     (let t = trim s
      in if t = [] then Fin 0
         else case NonDecimalIntegerLiteral t of
                Some n \<Rightarrow> Fin (of_nat n)
              | None \<Rightarrow> StrDecimalLiteral t)"

subsection \<open>ToPrimitive, ToString, ToNumber\<close>

text \<open>
  An object that came out of \<^verbatim>\<open>JSON.parse\<close> has no callable property of its own.  Its
  \<^verbatim>\<open>valueOf\<close> (inherited, or shadowed by data) never yields a primitive, so every
  conversion ends at \<^verbatim>\<open>toString\<close>: the inherited one gives \<^verbatim>\<open>[object Object]\<close>, and an
  own property of that name, which is not callable, leaves nothing to call and the
  conversion throws a TypeError.  An array converts through \<^verbatim>\<open>join\<close>, where
  \<^verbatim>\<open>undefined\<close> and \<^verbatim>\<open>null\<close> elements are empty.
\<close>

fun ToString :: "host \<Rightarrow> jsval \<Rightarrow> exn + string"
  and join :: "host \<Rightarrow> jsval list \<Rightarrow> exn + string"
where
  "ToString h VUndefined = Inr ''undefined''"
| "ToString h VNull = Inr ''null''"
| "ToString h (VBool b) = Inr (if b then ''true'' else ''false'')"
| "ToString h (VNum n) = Inr (Number_toString h n)"
| "ToString h (VStr s) = Inr s"
| "ToString h (VArr xs) = join h xs"
| "ToString h (VObj kvs) =
     (if map_of kvs ''toString'' \<noteq> None then Inl TypeError else Inr ''[object Object]'')"
| "join h [] = Inr []"
| "join h (x # xs) =
     and_then (if x = VUndefined \<or> x = VNull then Inr [] else ToString h x) (\<lambda>s.
     if xs = [] then Inr s
     else and_then (join h xs) (\<lambda>r. Inr (s @ '','' @ r)))"

text \<open>ToPrimitive leaves a primitive alone and turns an object into its string.\<close>

definition ToPrimitive :: "host \<Rightarrow> jsval \<Rightarrow> exn + jsval" where
  "ToPrimitive h v =
     (case v of
        VArr xs \<Rightarrow> and_then (ToString h v) (\<lambda>s. Inr (VStr s))
      | VObj kvs \<Rightarrow> and_then (ToString h v) (\<lambda>s. Inr (VStr s))
      | _ \<Rightarrow> Inr v)"

definition ToNumber :: "host \<Rightarrow> jsval \<Rightarrow> exn + jsnum" where
  "ToNumber h v =
     and_then (ToPrimitive h v) (\<lambda>p.
       case p of
         VUndefined \<Rightarrow> Inr NaN
       | VNull \<Rightarrow> Inr (Fin 0)
       | VBool b \<Rightarrow> Inr (Fin (if b then 1 else 0))
       | VNum n \<Rightarrow> Inr n
       | VStr s \<Rightarrow> Inr (StringToNumber s)
       | _ \<Rightarrow> Inl TypeError)"

text \<open>The calls \<^verbatim>\<open>Number(v)\<close> and \<^verbatim>\<open>String(v)\<close>.\<close>

definition js_Number :: "host \<Rightarrow> jsval \<Rightarrow> exn + jsval" where
  "js_Number h v = and_then (ToNumber h v) (\<lambda>n. Inr (VNum n))"

definition js_String :: "host \<Rightarrow> jsval \<Rightarrow> exn + jsval" where
  "js_String h v = and_then (ToString h v) (\<lambda>s. Inr (VStr s))"

subsection \<open>Dates\<close>

text \<open>
  A Date object is its time value: milliseconds since the epoch, or nothing for an
  invalid date.  \<^verbatim>\<open>new Date(v)\<close> parses a string and converts anything else to a number;
  TimeClip rejects what is not finite or beyond 8.64e15 and drops the fraction.
\<close>

definition TimeClip :: "jsnum \<Rightarrow> int option" where
  "TimeClip n =
     (case n of
        Fin q \<Rightarrow>
          if \<bar>q\<bar> > 8640000000000000 then None
          else Some (if 0 \<le> q then \<lfloor>q\<rfloor> else \<lceil>q\<rceil>)
      | _ \<Rightarrow> None)"

definition new_Date :: "host \<Rightarrow> jsval \<Rightarrow> exn + int option" where
  "new_Date h v =
     and_then (ToPrimitive h v) (\<lambda>p.
       case p of
         VStr s \<Rightarrow> Inr (TimeClip (Date_parse h s))
       | _ \<Rightarrow> and_then (ToNumber h p) (\<lambda>n. Inr (TimeClip n)))"

text \<open>The proleptic Gregorian date of a day number (days since 1970-01-01).\<close>

definition civil_from_days :: "int \<Rightarrow> int \<times> int \<times> int" where
  "civil_from_days days =
     (let z = days + 719468;
          era = z div 146097;
          doe = z mod 146097;
          yoe = (doe - doe div 1460 + doe div 36524 - doe div 146096) div 365;
          doy = doe - (365 * yoe + yoe div 4 - yoe div 100);
          mp = (5 * doy + 2) div 153;
          d = doy - (153 * mp + 2) div 5 + 1;
          m = (if mp < 10 then mp + 3 else mp - 9);
          y = yoe + era * 400
      in (if m \<le> 2 then y + 1 else y, m, d))"

fun pad :: "nat \<Rightarrow> nat \<Rightarrow> string" where
  "pad 0 n = []"
| "pad (Suc k) n = pad k (n div 10) @ [char_of (48 + n mod 10)]"

definition year_string :: "int \<Rightarrow> string" where
  "year_string y =
     (if 0 \<le> y \<and> y \<le> 9999 then pad 4 (nat y)
      else (if y < 0 then ''-'' else ''+'') @ pad 6 (nat \<bar>y\<bar>))"

text \<open>\<^verbatim>\<open>toISOString\<close> throws a RangeError on an invalid date.\<close>

definition toISOString :: "int option \<Rightarrow> exn + string" where
  "toISOString d =
     (case d of
        None \<Rightarrow> Inl RangeError
      | Some t \<Rightarrow>
          (let ms = t mod 86400000;
               (y, m, dd) = civil_from_days (t div 86400000)
           in Inr (year_string y @ ''-'' @ pad 2 (nat m) @ ''-'' @ pad 2 (nat dd) @ ''T''
                   @ pad 2 (nat (ms div 3600000)) @ '':''
                   @ pad 2 (nat (ms div 60000 mod 60)) @ '':''
                   @ pad 2 (nat (ms div 1000 mod 60)) @ ''.''
                   @ pad 3 (nat (ms mod 1000)) @ ''Z'')))"

section \<open>The normalizer: \<^verbatim>\<open>mapToPrimitives\<close>\<close>

text \<open>
  The source spells three shapes of expression out field by field; each shape is one
  definition here, with the parent property \<open>p\<close> and the field \<open>f\<close> as arguments.

  \<^verbatim>\<open>(w.p && typeof w.p.f !== "undefined") ? Number(w.p.f) : null\<close>
\<close>

definition typeof_guarded :: "host \<Rightarrow> jsval \<Rightarrow> string \<Rightarrow> string \<Rightarrow> exn + jsval" where
  "typeof_guarded h w p f =
     and_then (member w p) (\<lambda>parent.
       if truthy parent then
         and_then (member parent f) (\<lambda>v.
           if v \<noteq> VUndefined then js_Number h v else Inr VNull)
       else Inr VNull)"

text \<open>\<^verbatim>\<open>w.p && w.p.f !== undefined ? (w.p.f === "N/A" ? null : Number(w.p.f)) : null\<close>\<close>

definition na_guarded :: "host \<Rightarrow> jsval \<Rightarrow> string \<Rightarrow> string \<Rightarrow> exn + jsval" where
  "na_guarded h w p f =
     and_then (member w p) (\<lambda>parent.
       if truthy parent then
         and_then (member parent f) (\<lambda>v.
           if v \<noteq> VUndefined then (if v = VStr ''N/A'' then Inr VNull else js_Number h v)
           else Inr VNull)
       else Inr VNull)"

text \<open>\<^verbatim>\<open>(w.p && w.p.f) ? String(w.p.f) : dflt\<close>\<close>

definition truthy_guarded :: "host \<Rightarrow> jsval \<Rightarrow> string \<Rightarrow> string \<Rightarrow> jsval \<Rightarrow> exn + jsval" where
  "truthy_guarded h w p f dflt =
     and_then (member w p) (\<lambda>parent.
       if truthy parent then
         and_then (member parent f) (\<lambda>v.
           if truthy v then js_String h v else Inr dflt)
       else Inr dflt)"

text \<open>\<^verbatim>\<open>weatherData.datetime_utc ? new Date(weatherData.datetime_utc) : new Date()\<close>\<close>

definition observedAt :: "host \<Rightarrow> jsval \<Rightarrow> exn + int option" where
  "observedAt h weatherData =
     and_then (member weatherData ''datetime_utc'') (\<lambda>dt.
       if truthy dt then new_Date h dt else Inr (Some (now h)))"

definition mapToPrimitives :: "host \<Rightarrow> jsval \<Rightarrow> exn + jsval" where
  "mapToPrimitives h weatherData =
     and_then (observedAt h weatherData) (\<lambda>observedAt.
     and_then (truthy_guarded h weatherData ''location'' ''name'' (VStr ''Unknown'')) (\<lambda>locationName.
     and_then (typeof_guarded h weatherData ''clouds'' ''cloudiness_percent'') (\<lambda>cloudiness.
     and_then (typeof_guarded h weatherData ''main'' ''temperature_c'') (\<lambda>temperature.
     and_then (typeof_guarded h weatherData ''main'' ''humidity_percent'') (\<lambda>humidity.
     and_then (typeof_guarded h weatherData ''main'' ''pressure_hpa'') (\<lambda>pressure.
     and_then (na_guarded h weatherData ''precipitation'' ''rain_3h_mm'') (\<lambda>rain3h.
     and_then (na_guarded h weatherData ''precipitation'' ''snow_3h_mm'') (\<lambda>snow3h.
     and_then (truthy_guarded h weatherData ''weather'' ''description'' VNull) (\<lambda>weatherDesc.
     and_then (truthy_guarded h weatherData ''weather'' ''icon'' VNull) (\<lambda>weatherIcon.
     and_then (typeof_guarded h weatherData ''wind'' ''speed_ms'') (\<lambda>windSpeed.
     and_then (typeof_guarded h weatherData ''wind'' ''gust_ms'') (\<lambda>windGust.
     and_then (typeof_guarded h weatherData ''wind'' ''direction_degrees'') (\<lambda>windDeg.
     let rawPayload = VObj
           [(''icon'', nullish weatherIcon VNull),
            (''humidity'', nullish humidity VNull),
            (''pressure'', nullish pressure VNull),
            (''wind_gust'', nullish windGust VNull),
            (''wind_deg'', nullish windDeg VNull),
            (''rain_3h'', rain3h),
            (''snow_3h'', snow3h)]
     in
     and_then (toISOString observedAt) (\<lambda>iso.
     Inr (VObj
           [(''observed_at'', VStr iso),
            (''location'', locationName),
            (''clouds'', cloudiness),
            (''main'', temperature),
            (''precipitation'', nullish (nullish rain3h snow3h) VNull),
            (''weather'', weatherDesc),
            (''wind'', windSpeed),
            (''raw_payload'', rawPayload)])))))))))))))))"

section \<open>The pipeline: \<^verbatim>\<open>pushObservation\<close>\<close>

text \<open>\<^verbatim>\<open>process.env.PUSH_TARGET_ID ?? "e6f74576-8913-4def-9f54-fb08f926b7b2"\<close>\<close>

definition PUSH_TARGET_ID :: "string option \<Rightarrow> string" where
  "PUSH_TARGET_ID env =
     (case env of None \<Rightarrow> ''e6f74576-8913-4def-9f54-fb08f926b7b2'' | Some v \<Rightarrow> v)"

text \<open>
  What \<^verbatim>\<open>fetch\<close> resolves to: a status, and what \<^verbatim>\<open>res.json()\<close> will give (the parsed
  body, or the SyntaxError of a body that is not JSON).  \<^verbatim>\<open>res.ok\<close> is the status being
  in the range 200 to 299.
\<close>

record response =
  status :: nat
  json :: "exn + jsval"

definition res_ok :: "response \<Rightarrow> bool" where
  "res_ok res = (200 \<le> status res \<and> status res < 300)"

text \<open>
  The backing store is a table of rows and the list of the requests it has received.
  A request either goes through, is rejected by the store (the client then returns an
  error object next to no data), or fails in the client itself.
\<close>

datatype request = Upsert "jsval list" string | Insert "jsval list"

record store =
  table :: "jsval list"
  requests :: "request list"

datatype verdict = Accepts | Rejects "(string \<times> jsval) list" | Throws exn

record reply =
  data :: jsval
  error :: jsval

text \<open>
  Modelled from the spec: the store's side of an upsert keyed on a column, which is the
  database's and not this repository's.  If a row with the same key exists it is
  overwritten in place, otherwise the row is added; a rejected request changes nothing.
\<close>

fun upsert_row :: "string \<Rightarrow> jsval list \<Rightarrow> jsval \<Rightarrow> jsval list" where
  "upsert_row key [] r = [r]"
| "upsert_row key (x # xs) r =
     (if js_get x key = js_get r key then r # xs else x # upsert_row key xs r)"

definition upsert :: "verdict \<Rightarrow> store \<Rightarrow> jsval \<Rightarrow> string \<Rightarrow> exn + reply \<times> store" where
  "upsert v db record onConflict =
     (let db' = db\<lparr>requests := requests db @ [Upsert [record] onConflict]\<rparr>
      in case v of
           Accepts \<Rightarrow>
             Inr (\<lparr>data = VArr [record], error = VNull\<rparr>,
                  db'\<lparr>table := upsert_row onConflict (table db) record\<rparr>)
         | Rejects detail \<Rightarrow> Inr (\<lparr>data = VNull, error = VObj detail\<rparr>, db')
         | Throws e \<Rightarrow> Inl e)"

text \<open>One run meets one world: the engine, the answer of the weather API, the store's verdict.\<close>

record world =
  engine :: host
  fetched :: "exn + response"
  verdict :: verdict

datatype push_result = Success jsval | Failure "exn + jsval"

fun ok :: "push_result \<Rightarrow> bool" where
  "ok (Success d) = True"
| "ok (Failure e) = False"

text \<open>
  The body of the \<^verbatim>\<open>try\<close> block.  A \<^verbatim>\<open>throw\<close> leaves the store as the last completed
  statement left it, so the block returns the store with its result and the handler
  keeps the store it started with (nothing before the upsert touches it, and an
  upsert that throws has not been applied).
\<close>

definition pushObservation_try ::
  "string option \<Rightarrow> world \<Rightarrow> store \<Rightarrow> exn + push_result \<times> store" where
  "pushObservation_try env w db =
     and_then (fetched w) (\<lambda>res.
     if \<not> res_ok res then Inl (FetchStatus (status res))
     else
     and_then (json res) (\<lambda>weatherData.
     and_then (mapToPrimitives (engine w) weatherData) (\<lambda>payload.
     let record = VObj
           [(''id'', VStr (PUSH_TARGET_ID env)),
            (''observed_at'', js_get payload ''observed_at''),
            (''location'', js_get payload ''location''),
            (''location_point'', VNull),
            (''clouds'', js_get payload ''clouds''),
            (''main'', js_get payload ''main''),
            (''precipitation'', js_get payload ''precipitation''),
            (''weather'', js_get payload ''weather''),
            (''wind'', js_get payload ''wind''),
            (''raw_payload'', js_get payload ''raw_payload'')]
     in
     and_then (upsert (verdict w) db record ''id'') (\<lambda>(r, db').
     if truthy (error r) then Inr (Failure (Inr (error r)), db')
     else Inr (Success (data r), db')))))"

definition pushObservation ::
  "string option \<Rightarrow> world \<Rightarrow> store \<Rightarrow> exn + push_result \<times> store" where
  "pushObservation env w db =
     (case pushObservation_try env w db of
        Inl err \<Rightarrow> Inr (Failure (Inl err), db)
      | Inr r \<Rightarrow> Inr r)"

text \<open>
  A sequence of runs, each in its own world, on the store the previous one left.  A run
  reaches the store in one request, so runs that overlap in time are a sequence too, in
  the order in which their requests arrive.
\<close>

fun runs :: "string option \<Rightarrow> world list \<Rightarrow> store \<Rightarrow> store" where
  "runs env [] db = db"
| "runs env (w # ws) db =
     (case pushObservation env w db of
        Inl err \<Rightarrow> db
      | Inr (r, db') \<Rightarrow> runs env ws db')"

section \<open>The scheduler\<close>

text \<open>
  The process holds \<^verbatim>\<open>intervalHandle\<close>; the event loop holds the intervals that are
  active.  \<open>started\<close> counts the calls of \<^verbatim>\<open>pushObservation\<close> made by the scheduler.
  A timer of Node is an object, hence truthy.
\<close>

datatype timer = Timeout nat

record process =
  intervalHandle :: "timer option"
  timers :: "timer list"
  next_timer :: nat
  started :: nat

definition setInterval :: "process \<Rightarrow> timer \<times> process" where
  "setInterval p =
     (Timeout (next_timer p),
      p\<lparr>timers := timers p @ [Timeout (next_timer p)], next_timer := Suc (next_timer p)\<rparr>)"

definition clearInterval :: "timer \<Rightarrow> process \<Rightarrow> process" where
  "clearInterval t p = p\<lparr>timers := removeAll t (timers p)\<rparr>"

definition startPusher :: "process \<Rightarrow> process" where
  "startPusher p =
     (if intervalHandle p \<noteq> None then p
      else
        let (t, p1) = setInterval p;
            p2 = p1\<lparr>intervalHandle := Some t\<rparr>
        in p2\<lparr>started := Suc (started p2)\<rparr>)"

text \<open>One interval elapses: every active timer calls \<^verbatim>\<open>pushObservation\<close> once.\<close>

definition tick :: "process \<Rightarrow> process" where
  "tick p = p\<lparr>started := started p + length (timers p)\<rparr>"

text \<open>The handlers of \<^verbatim>\<open>/start\<close> and \<^verbatim>\<open>/stop\<close>: an HTTP status and a body, and the process after.\<close>

definition post_start :: "jsnum \<Rightarrow> process \<Rightarrow> (nat \<times> jsval) \<times> process" where
  "post_start INTERVAL_SECONDS p =
     ((200, VObj [(''status'', VStr ''started''), (''interval_seconds'', VNum INTERVAL_SECONDS)]),
      startPusher p)"

definition post_stop :: "process \<Rightarrow> (nat \<times> jsval) \<times> process" where
  "post_stop p =
     (case intervalHandle p of
        None \<Rightarrow> ((400, VObj [(''status'', VStr ''not_running'')]), p)
      | Some t \<Rightarrow>
          ((200, VObj [(''status'', VStr ''stopped'')]),
           (clearInterval t p)\<lparr>intervalHandle := None\<rparr>))"

definition get_stop :: "process \<Rightarrow> (nat \<times> jsval) \<times> process" where
  "get_stop p =
     (case intervalHandle p of
        None \<Rightarrow> ((400, VStr ''not_running''), p)
      | Some t \<Rightarrow>
          ((200, VStr ''stopped''), (clearInterval t p)\<lparr>intervalHandle := None\<rparr>))"

text \<open>
  The process at launch (\<^verbatim>\<open>let intervalHandle = null\<close>, no timer yet), and what the
  control surface and the clock can do to it, in any order.
\<close>

definition launch :: process where
  "launch = \<lparr>intervalHandle = None, timers = [], next_timer = 0, started = 0\<rparr>"

datatype event = Start | Stop | Tick

fun step :: "process \<Rightarrow> event \<Rightarrow> process" where
  "step p Start = startPusher p"
| "step p Stop = snd (post_stop p)"
| "step p Tick = tick p"

definition after :: "event list \<Rightarrow> process" where
  "after es = foldl step launch es"

section \<open>Predicates and sample inputs\<close>

text \<open>The column types of a normalized observation.\<close>

fun number_or_null :: "jsval \<Rightarrow> bool" where
  "number_or_null VNull = True"
| "number_or_null (VNum n) = True"
| "number_or_null _ = False"

fun string_or_null :: "jsval \<Rightarrow> bool" where
  "string_or_null VNull = True"
| "string_or_null (VStr s) = True"
| "string_or_null _ = False"

text \<open>
  An engine for the examples: its clock reads 2023-11-14T22:13:20.123Z, it parses one
  time stamp, and it prints the special numbers and zero (no example prints another).
\<close>

definition sample_host :: host where
  "sample_host =
     \<lparr>now = 1700000000123,
      Date_parse = (\<lambda>s. if s = ''2024-05-01T12:00:00Z'' then Fin 1714564800000 else NaN),
      Number_toString =
        (\<lambda>n. case n of NaN \<Rightarrow> ''NaN'' | PosInf \<Rightarrow> ''Infinity'' | NegInf \<Rightarrow> ''-Infinity''
                       | Fin q \<Rightarrow> if q = 0 then ''0'' else ''NaN'')\<rparr>"

text \<open>
  \<^verbatim>\<open>{ "main": { "temperature_c": 21.5, "humidity_percent": "N/A" },
    "weather": { "description": "Clear" } }\<close>
\<close>

definition scenario_doc :: jsval where
  "scenario_doc =
     VObj [(''main'', VObj [(''temperature_c'', VNum (Fin (43 / 2))),
                            (''humidity_percent'', VStr ''N/A'')]),
           (''weather'', VObj [(''description'', VStr ''Clear'')])]"

text \<open>
  Sample documents: every numeric field \<^verbatim>\<open>"N/A"\<close>; every string field empty and every
  numeric field 0; rain and snow both present; a name that shadows \<^verbatim>\<open>toString\<close>; a
  time stamp that is no date; a temperature that is no number.
\<close>

definition na_doc :: jsval where
  "na_doc =
     VObj [(''clouds'', VObj [(''cloudiness_percent'', VStr ''N/A'')]),
           (''main'', VObj [(''temperature_c'', VStr ''N/A''),
                            (''humidity_percent'', VStr ''N/A''),
                            (''pressure_hpa'', VStr ''N/A'')]),
           (''precipitation'', VObj [(''rain_3h_mm'', VStr ''N/A''),
                                     (''snow_3h_mm'', VStr ''N/A'')]),
           (''wind'', VObj [(''speed_ms'', VStr ''N/A''),
                            (''gust_ms'', VStr ''N/A''),
                            (''direction_degrees'', VStr ''N/A'')])]"

definition blank_doc :: jsval where
  "blank_doc =
     VObj [(''datetime_utc'', VStr ''''),
           (''location'', VObj [(''name'', VStr '''')]),
           (''clouds'', VObj [(''cloudiness_percent'', VNum (Fin 0))]),
           (''main'', VObj [(''temperature_c'', VNum (Fin 0)),
                            (''humidity_percent'', VNum (Fin 0)),
                            (''pressure_hpa'', VNum (Fin 0))]),
           (''precipitation'', VObj [(''rain_3h_mm'', VNum (Fin 0)),
                                     (''snow_3h_mm'', VNum (Fin 0))]),
           (''weather'', VObj [(''description'', VStr ''''), (''icon'', VStr '''')]),
           (''wind'', VObj [(''speed_ms'', VNum (Fin 0)),
                            (''gust_ms'', VNum (Fin 0)),
                            (''direction_degrees'', VNum (Fin 0))])]"

definition rain_snow_doc :: jsval where
  "rain_snow_doc =
     VObj [(''precipitation'', VObj [(''rain_3h_mm'', VNum (Fin (6 / 5))),
                                     (''snow_3h_mm'', VNum (Fin 3))])]"

text \<open>
  Precipitation documents: a JSON \<^verbatim>\<open>null\<close> for rain beside snow; snow alone;
  \<^verbatim>\<open>"N/A"\<close> for rain beside snow.
\<close>

definition null_rain_doc :: jsval where
  "null_rain_doc =
     VObj [(''precipitation'', VObj [(''rain_3h_mm'', VNull),
                                     (''snow_3h_mm'', VNum (Fin 4))])]"

definition snow_only_doc :: jsval where
  "snow_only_doc = VObj [(''precipitation'', VObj [(''snow_3h_mm'', VNum (Fin 4))])]"

definition na_rain_doc :: jsval where
  "na_rain_doc =
     VObj [(''precipitation'', VObj [(''rain_3h_mm'', VStr ''N/A''),
                                     (''snow_3h_mm'', VNum (Fin 4))])]"

definition shadowed_doc :: jsval where
  "shadowed_doc = VObj [(''location'', VObj [(''name'', VObj [(''toString'', VNull)])])]"

definition undated_doc :: jsval where
  "undated_doc = VObj [(''datetime_utc'', VStr ''soon'')]"

definition warm_doc :: jsval where
  "warm_doc = VObj [(''main'', VObj [(''temperature_c'', VStr ''warm'')])]"

text \<open>
  When \<^verbatim>\<open>mapToPrimitives\<close> returns.  A value converts to a string or a number unless it
  is an object with an own \<^verbatim>\<open>toString\<close> property, or an array that holds one; the
  twelve source fields are the values the body may convert; the date of a truthy
  \<^verbatim>\<open>datetime_utc\<close> has to be valid.
\<close>

fun stringable :: "jsval \<Rightarrow> bool"
  and stringables :: "jsval list \<Rightarrow> bool"
where
  "stringable (VObj kvs) = (map_of kvs ''toString'' = None)"
| "stringable (VArr xs) = stringables xs"
| "stringable VUndefined = True"
| "stringable VNull = True"
| "stringable (VBool b) = True"
| "stringable (VNum n) = True"
| "stringable (VStr s) = True"
| "stringables [] = True"
| "stringables (x # xs) = (stringable x \<and> stringables xs)"

definition leaves :: "jsval \<Rightarrow> jsval list" where
  "leaves w =
     map (\<lambda>(p, f). js_get (js_get w p) f)
       [(''location'', ''name''), (''clouds'', ''cloudiness_percent''),
        (''main'', ''temperature_c''), (''main'', ''humidity_percent''),
        (''main'', ''pressure_hpa''), (''precipitation'', ''rain_3h_mm''),
        (''precipitation'', ''snow_3h_mm''), (''weather'', ''description''),
        (''weather'', ''icon''), (''wind'', ''speed_ms''), (''wind'', ''gust_ms''),
        (''wind'', ''direction_degrees'')]"

definition valid_date :: "host \<Rightarrow> jsval \<Rightarrow> bool" where
  "valid_date h w =
     (let dt = js_get w ''datetime_utc''
      in if truthy dt
         then (case new_Date h dt of Inr (Some t) \<Rightarrow> True | _ \<Rightarrow> False)
         else True)"

text \<open>The condition under which the normalizer returns (shown below to be exact).\<close>

definition returns :: "host \<Rightarrow> jsval \<Rightarrow> bool" where
  "returns h w =
     (w \<noteq> VNull \<and> w \<noteq> VUndefined \<and> valid_date h w \<and> list_all stringable (leaves w))"

text \<open>
  A request that is an upsert of one row carrying the given id, keyed on \<^verbatim>\<open>id\<close>; the
  number of rows of a table with that id; an empty store; the worlds of the examples (a
  good answer, a 503, no connection, a body that is not JSON, a store that rejects) and
  the row the good answer makes.
\<close>

fun targets :: "string \<Rightarrow> request \<Rightarrow> bool" where
  "targets tid (Upsert rows key) =
     (key = ''id'' \<and> (case rows of [r] \<Rightarrow> js_get r ''id'' = VStr tid | _ \<Rightarrow> False))"
| "targets tid (Insert rows) = False"

definition rows_with_id :: "string \<Rightarrow> jsval list \<Rightarrow> nat" where
  "rows_with_id tid rows = length (filter (\<lambda>r. js_get r ''id'' = VStr tid) rows)"

definition empty_store :: store where
  "empty_store = \<lparr>table = [], requests = []\<rparr>"

definition sample_row :: jsval where
  "sample_row =
     VObj
       [(''id'', VStr ''e6f74576-8913-4def-9f54-fb08f926b7b2''),
        (''observed_at'', VStr ''2023-11-14T22:13:20.123Z''),
        (''location'', VStr ''Unknown''),
        (''location_point'', VNull),
        (''clouds'', VNull),
        (''main'', VNum (Fin (43 / 2))),
        (''precipitation'', VNull),
        (''weather'', VStr ''Clear''),
        (''wind'', VNull),
        (''raw_payload'', VObj
          [(''icon'', VNull), (''humidity'', VNum NaN), (''pressure'', VNull),
           (''wind_gust'', VNull), (''wind_deg'', VNull), (''rain_3h'', VNull),
           (''snow_3h'', VNull)])]"

definition world_fine :: world where
  "world_fine =
     \<lparr>engine = sample_host, fetched = Inr \<lparr>status = 200, json = Inr scenario_doc\<rparr>,
      verdict = Accepts\<rparr>"

definition world_503 :: world where
  "world_503 =
     \<lparr>engine = sample_host, fetched = Inr \<lparr>status = 503, json = Inr scenario_doc\<rparr>,
      verdict = Accepts\<rparr>"

definition world_offline :: world where
  "world_offline =
     \<lparr>engine = sample_host, fetched = Inl (Rejected ''ECONNREFUSED''), verdict = Accepts\<rparr>"

definition world_html :: world where
  "world_html =
     \<lparr>engine = sample_host, fetched = Inr \<lparr>status = 200, json = Inl SyntaxError\<rparr>,
      verdict = Accepts\<rparr>"

definition world_denied :: world where
  "world_denied =
     \<lparr>engine = sample_host, fetched = Inr \<lparr>status = 200, json = Inr scenario_doc\<rparr>,
      verdict = Rejects [(''message'', VStr ''permission denied'')]\<rparr>"


text \<open>The event loop holds exactly the timer that \<^verbatim>\<open>intervalHandle\<close> names, if any.\<close>

definition consistent :: "process \<Rightarrow> bool" where
  "consistent p = (timers p = (case intervalHandle p of None \<Rightarrow> [] | Some t \<Rightarrow> [t]))"

section \<open>Lemmas on the conversions and the three guarded shapes\<close>

lemma and_then_Inr: "and_then m f = Inr y \<Longrightarrow> \<exists>x. m = Inr x \<and> f x = Inr y"
  by (cases m) (simp_all add: and_then_def)

lemma and_then_simps [simp]: "and_then (Inl e) f = Inl e" "and_then (Inr x) f = f x"
  by (simp_all add: and_then_def)

lemma member_Inr: "member v k = Inr x \<Longrightarrow> v \<noteq> VNull \<and> v \<noteq> VUndefined \<and> x = js_get v k"
  by (auto simp: member_def split: if_splits)

lemma js_get_falsy: "\<not> truthy v \<Longrightarrow> js_get v k = VUndefined"
  by (cases v) simp_all

lemma ToNumber_prim [simp]:
  "ToNumber h (VNum n) = Inr n"
  "ToNumber h VNull = Inr (Fin 0)"
  "ToNumber h (VStr s) = Inr (StringToNumber s)"
  "ToNumber h (VBool b) = Inr (Fin (if b then 1 else 0))"
  by (simp_all add: ToNumber_def ToPrimitive_def)

text \<open>What each guarded shape returns, by what the source field holds.\<close>

lemma typeof_guarded_cases:
  assumes "typeof_guarded h w p f = Inr v"
  shows "(js_get (js_get w p) f = VUndefined \<and> v = VNull) \<or>
         (js_get (js_get w p) f \<noteq> VUndefined \<and>
            (\<exists>n. ToNumber h (js_get (js_get w p) f) = Inr n \<and> v = VNum n))"
  using assms unfolding typeof_guarded_def js_Number_def
  by (auto dest!: and_then_Inr member_Inr simp: js_get_falsy split: if_splits)

lemma na_guarded_cases:
  assumes "na_guarded h w p f = Inr v"
  shows "(js_get (js_get w p) f = VUndefined \<and> v = VNull) \<or>
         (js_get (js_get w p) f = VStr ''N/A'' \<and> v = VNull) \<or>
         (js_get (js_get w p) f \<noteq> VUndefined \<and> js_get (js_get w p) f \<noteq> VStr ''N/A'' \<and>
            (\<exists>n. ToNumber h (js_get (js_get w p) f) = Inr n \<and> v = VNum n))"
  using assms unfolding na_guarded_def js_Number_def
  by (auto dest!: and_then_Inr member_Inr simp: js_get_falsy split: if_splits)

lemma truthy_guarded_cases:
  assumes "truthy_guarded h w p f d = Inr v"
  shows "(\<not> truthy (js_get (js_get w p) f) \<and> v = d) \<or>
         (truthy (js_get (js_get w p) f) \<and>
            (\<exists>s. ToString h (js_get (js_get w p) f) = Inr s \<and> v = VStr s))"
  using assms unfolding truthy_guarded_def js_String_def
  by (auto dest!: and_then_Inr member_Inr simp: js_get_falsy split: if_splits)

lemma typeof_guarded_number: "typeof_guarded h w p f = Inr v \<Longrightarrow> number_or_null v"
  by (auto dest: typeof_guarded_cases)

lemma na_guarded_number: "na_guarded h w p f = Inr v \<Longrightarrow> number_or_null v"
  by (auto dest: na_guarded_cases)

lemma truthy_guarded_string: "truthy_guarded h w p f VNull = Inr v \<Longrightarrow> string_or_null v"
  by (auto dest: truthy_guarded_cases)

lemma nullish_number: "number_or_null a \<Longrightarrow> number_or_null b \<Longrightarrow> number_or_null (nullish a b)"
  by (simp add: nullish_def)

lemma nullish_VNull: "a \<noteq> VUndefined \<Longrightarrow> nullish a VNull = a"
  by (simp add: nullish_def)

lemma number_or_null_defined: "number_or_null v \<Longrightarrow> v \<noteq> VUndefined"
  by auto

lemma string_or_null_defined: "string_or_null v \<Longrightarrow> v \<noteq> VUndefined"
  by auto

text \<open>A run of \<^verbatim>\<open>mapToPrimitives\<close> that returns has evaluated every constant of its body.\<close>

lemma mapToPrimitives_Inr:
  assumes "mapToPrimitives h w = Inr obs"
  shows "\<exists>t loc c tmp hum pr r s wd wi ws wg wdg iso.
     observedAt h w = Inr t \<and>
     truthy_guarded h w ''location'' ''name'' (VStr ''Unknown'') = Inr loc \<and>
     typeof_guarded h w ''clouds'' ''cloudiness_percent'' = Inr c \<and>
     typeof_guarded h w ''main'' ''temperature_c'' = Inr tmp \<and>
     typeof_guarded h w ''main'' ''humidity_percent'' = Inr hum \<and>
     typeof_guarded h w ''main'' ''pressure_hpa'' = Inr pr \<and>
     na_guarded h w ''precipitation'' ''rain_3h_mm'' = Inr r \<and>
     na_guarded h w ''precipitation'' ''snow_3h_mm'' = Inr s \<and>
     truthy_guarded h w ''weather'' ''description'' VNull = Inr wd \<and>
     truthy_guarded h w ''weather'' ''icon'' VNull = Inr wi \<and>
     typeof_guarded h w ''wind'' ''speed_ms'' = Inr ws \<and>
     typeof_guarded h w ''wind'' ''gust_ms'' = Inr wg \<and>
     typeof_guarded h w ''wind'' ''direction_degrees'' = Inr wdg \<and>
     toISOString t = Inr iso \<and>
     obs = VObj
       [(''observed_at'', VStr iso), (''location'', loc), (''clouds'', c), (''main'', tmp),
        (''precipitation'', nullish (nullish r s) VNull), (''weather'', wd), (''wind'', ws),
        (''raw_payload'', VObj
          [(''icon'', nullish wi VNull), (''humidity'', nullish hum VNull),
           (''pressure'', nullish pr VNull), (''wind_gust'', nullish wg VNull),
           (''wind_deg'', nullish wdg VNull), (''rain_3h'', r), (''snow_3h'', s)])]"
  using assms unfolding mapToPrimitives_def Let_def
  by (auto dest!: and_then_Inr)

text \<open>
  The same with the types of the constants, and the nullish defaults of \<^verbatim>\<open>rawPayload\<close>
  resolved: a constant that is a number, a string or \<^verbatim>\<open>null\<close> passes \<^verbatim>\<open>?? null\<close> unchanged.
\<close>

lemma mapToPrimitives_shape:
  assumes "mapToPrimitives h w = Inr obs"
  obtains t loc c tmp hum pr r s wd wi ws wg wdg iso where
    "observedAt h w = Inr t" and "toISOString t = Inr iso" and
    "truthy_guarded h w ''location'' ''name'' (VStr ''Unknown'') = Inr loc" and
    "typeof_guarded h w ''clouds'' ''cloudiness_percent'' = Inr c" and
    "typeof_guarded h w ''main'' ''temperature_c'' = Inr tmp" and
    "typeof_guarded h w ''main'' ''humidity_percent'' = Inr hum" and
    "typeof_guarded h w ''main'' ''pressure_hpa'' = Inr pr" and
    "na_guarded h w ''precipitation'' ''rain_3h_mm'' = Inr r" and
    "na_guarded h w ''precipitation'' ''snow_3h_mm'' = Inr s" and
    "truthy_guarded h w ''weather'' ''description'' VNull = Inr wd" and
    "truthy_guarded h w ''weather'' ''icon'' VNull = Inr wi" and
    "typeof_guarded h w ''wind'' ''speed_ms'' = Inr ws" and
    "typeof_guarded h w ''wind'' ''gust_ms'' = Inr wg" and
    "typeof_guarded h w ''wind'' ''direction_degrees'' = Inr wdg" and
    "obs = VObj
       [(''observed_at'', VStr iso), (''location'', loc), (''clouds'', c), (''main'', tmp),
        (''precipitation'', nullish (nullish r s) VNull), (''weather'', wd), (''wind'', ws),
        (''raw_payload'', VObj
          [(''icon'', wi), (''humidity'', hum), (''pressure'', pr), (''wind_gust'', wg),
           (''wind_deg'', wdg), (''rain_3h'', r), (''snow_3h'', s)])]"
proof -
  from mapToPrimitives_Inr [OF assms] obtain t loc c tmp hum pr r s wd wi ws wg wdg iso where
    t: "observedAt h w = Inr t" and iso: "toISOString t = Inr iso" and
    loc: "truthy_guarded h w ''location'' ''name'' (VStr ''Unknown'') = Inr loc" and
    c: "typeof_guarded h w ''clouds'' ''cloudiness_percent'' = Inr c" and
    tmp: "typeof_guarded h w ''main'' ''temperature_c'' = Inr tmp" and
    hum: "typeof_guarded h w ''main'' ''humidity_percent'' = Inr hum" and
    pr: "typeof_guarded h w ''main'' ''pressure_hpa'' = Inr pr" and
    r: "na_guarded h w ''precipitation'' ''rain_3h_mm'' = Inr r" and
    s: "na_guarded h w ''precipitation'' ''snow_3h_mm'' = Inr s" and
    wd: "truthy_guarded h w ''weather'' ''description'' VNull = Inr wd" and
    wi: "truthy_guarded h w ''weather'' ''icon'' VNull = Inr wi" and
    ws: "typeof_guarded h w ''wind'' ''speed_ms'' = Inr ws" and
    wg: "typeof_guarded h w ''wind'' ''gust_ms'' = Inr wg" and
    wdg: "typeof_guarded h w ''wind'' ''direction_degrees'' = Inr wdg" and
    obs: "obs = VObj
       [(''observed_at'', VStr iso), (''location'', loc), (''clouds'', c), (''main'', tmp),
        (''precipitation'', nullish (nullish r s) VNull), (''weather'', wd), (''wind'', ws),
        (''raw_payload'', VObj
          [(''icon'', nullish wi VNull), (''humidity'', nullish hum VNull),
           (''pressure'', nullish pr VNull), (''wind_gust'', nullish wg VNull),
           (''wind_deg'', nullish wdg VNull), (''rain_3h'', r), (''snow_3h'', s)])]"
    by blast
  have "nullish wi VNull = wi" "nullish hum VNull = hum" "nullish pr VNull = pr"
    "nullish wg VNull = wg" "nullish wdg VNull = wdg"
    using truthy_guarded_string [OF wi] typeof_guarded_number [OF hum]
      typeof_guarded_number [OF pr] typeof_guarded_number [OF wg] typeof_guarded_number [OF wdg]
    by (simp_all add: nullish_VNull number_or_null_defined string_or_null_defined)
  with obs have "obs = VObj
       [(''observed_at'', VStr iso), (''location'', loc), (''clouds'', c), (''main'', tmp),
        (''precipitation'', nullish (nullish r s) VNull), (''weather'', wd), (''wind'', ws),
        (''raw_payload'', VObj
          [(''icon'', wi), (''humidity'', hum), (''pressure'', pr), (''wind_gust'', wg),
           (''wind_deg'', wdg), (''rain_3h'', r), (''snow_3h'', s)])]"
    by simp
  with t iso loc c tmp hum pr r s wd wi ws wg wdg show thesis
    by (rule that)
qed

text \<open>The scenario document under the sample engine.\<close>

lemma scenario_run:
  "mapToPrimitives sample_host scenario_doc = Inr (VObj
     [(''observed_at'', VStr ''2023-11-14T22:13:20.123Z''),
      (''location'', VStr ''Unknown''), (''clouds'', VNull),
      (''main'', VNum (Fin (43 / 2))), (''precipitation'', VNull),
      (''weather'', VStr ''Clear''), (''wind'', VNull),
      (''raw_payload'', VObj
        [(''icon'', VNull), (''humidity'', VNum NaN), (''pressure'', VNull),
         (''wind_gust'', VNull), (''wind_deg'', VNull), (''rain_3h'', VNull),
         (''snow_3h'', VNull)])])"
  by code_simp

subsection \<open>When the normalizer returns\<close>

lemma ToString_stringable:
  "(\<exists>s. ToString h v = Inr s) = stringable v"
  "(\<exists>s. join h xs = Inr s) = stringables xs"
proof (induction h v and h xs rule: ToString_join.induct)
  case (9 h x xs)
  then show ?case
    by (cases "x = VUndefined \<or> x = VNull"; cases "xs = []"; cases "ToString h x"; cases "join h xs")
       (auto simp: and_then_def)
qed auto

lemma ToNumber_stringable: "(\<exists>n. ToNumber h v = Inr n) = stringable v"
proof (cases v)
  case (VArr xs)
  then show ?thesis
    using ToString_stringable(1) [of h v]
    by (cases "ToString h v") (auto simp: ToNumber_def ToPrimitive_def)
next
  case (VObj kvs)
  then show ?thesis
    using ToString_stringable(1) [of h v]
    by (cases "ToString h v") (auto simp: ToNumber_def ToPrimitive_def)
qed (simp_all add: ToNumber_def ToPrimitive_def)

lemma falsy_stringable: "\<not> truthy v \<Longrightarrow> stringable v"
  by (cases v) simp_all

lemma toISOString_Some: "\<exists>iso. toISOString (Some t) = Inr iso"
  by (simp add: toISOString_def Let_def split: prod.splits)

lemma toISOString_Inr: "toISOString d = Inr stamp \<Longrightarrow> \<exists>t. d = Some t"
  by (cases d) (simp_all add: toISOString_def)

lemma typeof_guarded_returns:
  assumes "w \<noteq> VNull" "w \<noteq> VUndefined" "stringable (js_get (js_get w p) f)"
  shows "\<exists>v. typeof_guarded h w p f = Inr v"
proof -
  from assms(3) obtain n where "ToNumber h (js_get (js_get w p) f) = Inr n"
    using ToNumber_stringable by blast
  with assms(1,2) show ?thesis
    by (cases "js_get w p") (simp_all add: typeof_guarded_def member_def js_Number_def)
qed

lemma na_guarded_returns:
  assumes "w \<noteq> VNull" "w \<noteq> VUndefined" "stringable (js_get (js_get w p) f)"
  shows "\<exists>v. na_guarded h w p f = Inr v"
proof -
  from assms(3) obtain n where "ToNumber h (js_get (js_get w p) f) = Inr n"
    using ToNumber_stringable by blast
  with assms(1,2) show ?thesis
    by (cases "js_get w p") (simp_all add: na_guarded_def member_def js_Number_def)
qed

lemma truthy_guarded_returns:
  assumes "w \<noteq> VNull" "w \<noteq> VUndefined" "stringable (js_get (js_get w p) f)"
  shows "\<exists>v. truthy_guarded h w p f d = Inr v"
proof -
  from assms(3) obtain n where "ToString h (js_get (js_get w p) f) = Inr n"
    using ToString_stringable(1) by blast
  with assms(1,2) show ?thesis
    by (cases "js_get w p") (simp_all add: truthy_guarded_def member_def js_String_def)
qed

lemma observedAt_returns:
  assumes "w \<noteq> VNull" "w \<noteq> VUndefined" "valid_date h w"
  shows "\<exists>t. observedAt h w = Inr (Some t)"
  using assms
  by (auto simp: observedAt_def member_def valid_date_def Let_def split: sum.splits option.splits)

lemma observedAt_valid:
  assumes "observedAt h w = Inr (Some t)"
  shows "w \<noteq> VNull \<and> w \<noteq> VUndefined \<and> valid_date h w"
  using assms
  by (auto simp: observedAt_def valid_date_def Let_def dest!: and_then_Inr member_Inr split: if_splits)

lemma typeof_guarded_leaf: "typeof_guarded h w p f = Inr v \<Longrightarrow> stringable (js_get (js_get w p) f)"
  using ToNumber_stringable by (fastforce dest: typeof_guarded_cases)

lemma na_guarded_leaf: "na_guarded h w p f = Inr v \<Longrightarrow> stringable (js_get (js_get w p) f)"
  using ToNumber_stringable by (fastforce dest: na_guarded_cases)

lemma truthy_guarded_leaf: "truthy_guarded h w p f d = Inr v \<Longrightarrow> stringable (js_get (js_get w p) f)"
  using ToString_stringable(1) falsy_stringable by (fastforce dest: truthy_guarded_cases)

lemma returns_if:
  assumes "mapToPrimitives h w = Inr obs"
  shows "returns h w"
proof -
  from assms obtain t loc c tmp hum pr r s wd wi ws wg wdg iso where
    t: "observedAt h w = Inr t" and iso: "toISOString t = Inr iso" and
    loc: "truthy_guarded h w ''location'' ''name'' (VStr ''Unknown'') = Inr loc" and
    c: "typeof_guarded h w ''clouds'' ''cloudiness_percent'' = Inr c" and
    tmp: "typeof_guarded h w ''main'' ''temperature_c'' = Inr tmp" and
    hum: "typeof_guarded h w ''main'' ''humidity_percent'' = Inr hum" and
    pr: "typeof_guarded h w ''main'' ''pressure_hpa'' = Inr pr" and
    r: "na_guarded h w ''precipitation'' ''rain_3h_mm'' = Inr r" and
    s: "na_guarded h w ''precipitation'' ''snow_3h_mm'' = Inr s" and
    wd: "truthy_guarded h w ''weather'' ''description'' VNull = Inr wd" and
    wi: "truthy_guarded h w ''weather'' ''icon'' VNull = Inr wi" and
    ws: "typeof_guarded h w ''wind'' ''speed_ms'' = Inr ws" and
    wg: "typeof_guarded h w ''wind'' ''gust_ms'' = Inr wg" and
    wdg: "typeof_guarded h w ''wind'' ''direction_degrees'' = Inr wdg"
    by (rule mapToPrimitives_shape)
  from toISOString_Inr [OF iso] t obtain ms where "observedAt h w = Inr (Some ms)"
    by auto
  from observedAt_valid [OF this] have "w \<noteq> VNull" "w \<noteq> VUndefined" "valid_date h w"
    by simp_all
  moreover have "list_all stringable (leaves w)"
    unfolding leaves_def
    using truthy_guarded_leaf [OF loc] typeof_guarded_leaf [OF c] typeof_guarded_leaf [OF tmp]
      typeof_guarded_leaf [OF hum] typeof_guarded_leaf [OF pr] na_guarded_leaf [OF r]
      na_guarded_leaf [OF s] truthy_guarded_leaf [OF wd] truthy_guarded_leaf [OF wi]
      typeof_guarded_leaf [OF ws] typeof_guarded_leaf [OF wg] typeof_guarded_leaf [OF wdg]
    by simp
  ultimately show ?thesis
    by (simp add: returns_def)
qed

lemma returns_only_if:
  assumes "returns h w"
  shows "\<exists>obs. mapToPrimitives h w = Inr obs"
proof -
  from assms have w: "w \<noteq> VNull" "w \<noteq> VUndefined" and d: "valid_date h w"
    and l: "list_all stringable (leaves w)"
    by (simp_all add: returns_def)
  from l have ls:
    "stringable (js_get (js_get w ''location'') ''name'')"
    "stringable (js_get (js_get w ''clouds'') ''cloudiness_percent'')"
    "stringable (js_get (js_get w ''main'') ''temperature_c'')"
    "stringable (js_get (js_get w ''main'') ''humidity_percent'')"
    "stringable (js_get (js_get w ''main'') ''pressure_hpa'')"
    "stringable (js_get (js_get w ''precipitation'') ''rain_3h_mm'')"
    "stringable (js_get (js_get w ''precipitation'') ''snow_3h_mm'')"
    "stringable (js_get (js_get w ''weather'') ''description'')"
    "stringable (js_get (js_get w ''weather'') ''icon'')"
    "stringable (js_get (js_get w ''wind'') ''speed_ms'')"
    "stringable (js_get (js_get w ''wind'') ''gust_ms'')"
    "stringable (js_get (js_get w ''wind'') ''direction_degrees'')"
    by (simp_all add: leaves_def)
  from observedAt_returns [OF w d] obtain t where t: "observedAt h w = Inr (Some t)" ..
  from toISOString_Some obtain iso where iso: "toISOString (Some t) = Inr iso" ..
  from truthy_guarded_returns [OF w ls(1)] obtain loc where
    loc: "truthy_guarded h w ''location'' ''name'' (VStr ''Unknown'') = Inr loc" ..
  from typeof_guarded_returns [OF w ls(2)] obtain c where
    c: "typeof_guarded h w ''clouds'' ''cloudiness_percent'' = Inr c" ..
  from typeof_guarded_returns [OF w ls(3)] obtain tmp where
    tmp: "typeof_guarded h w ''main'' ''temperature_c'' = Inr tmp" ..
  from typeof_guarded_returns [OF w ls(4)] obtain hum where
    hum: "typeof_guarded h w ''main'' ''humidity_percent'' = Inr hum" ..
  from typeof_guarded_returns [OF w ls(5)] obtain pr where
    pr: "typeof_guarded h w ''main'' ''pressure_hpa'' = Inr pr" ..
  from na_guarded_returns [OF w ls(6)] obtain r where
    r: "na_guarded h w ''precipitation'' ''rain_3h_mm'' = Inr r" ..
  from na_guarded_returns [OF w ls(7)] obtain s where
    s: "na_guarded h w ''precipitation'' ''snow_3h_mm'' = Inr s" ..
  from truthy_guarded_returns [OF w ls(8)] obtain wd where
    wd: "truthy_guarded h w ''weather'' ''description'' VNull = Inr wd" ..
  from truthy_guarded_returns [OF w ls(9)] obtain wi where
    wi: "truthy_guarded h w ''weather'' ''icon'' VNull = Inr wi" ..
  from typeof_guarded_returns [OF w ls(10)] obtain ws where
    ws: "typeof_guarded h w ''wind'' ''speed_ms'' = Inr ws" ..
  from typeof_guarded_returns [OF w ls(11)] obtain wg where
    wg: "typeof_guarded h w ''wind'' ''gust_ms'' = Inr wg" ..
  from typeof_guarded_returns [OF w ls(12)] obtain wdg where
    wdg: "typeof_guarded h w ''wind'' ''direction_degrees'' = Inr wdg" ..
  show ?thesis
    unfolding mapToPrimitives_def Let_def
    by (simp add: t iso loc c tmp hum pr r s wd wi ws wg wdg)
qed

subsection \<open>Reading the result, and sample runs\<close>

lemma js_get_obs [simp]:
  "js_get (VObj
       [(''observed_at'', a), (''location'', b), (''clouds'', c), (''main'', d),
        (''precipitation'', e), (''weather'', f), (''wind'', g), (''raw_payload'', i)]) k =
   (if k = ''observed_at'' then a else if k = ''location'' then b else if k = ''clouds'' then c
    else if k = ''main'' then d else if k = ''precipitation'' then e else if k = ''weather'' then f
    else if k = ''wind'' then g else if k = ''raw_payload'' then i else VUndefined)"
  by simp

lemma js_get_raw [simp]:
  "js_get (VObj
          [(''icon'', a), (''humidity'', b), (''pressure'', c), (''wind_gust'', d),
           (''wind_deg'', e), (''rain_3h'', f), (''snow_3h'', g)]) k =
   (if k = ''icon'' then a else if k = ''humidity'' then b else if k = ''pressure'' then c
    else if k = ''wind_gust'' then d else if k = ''wind_deg'' then e else if k = ''rain_3h'' then f
    else if k = ''snow_3h'' then g else VUndefined)"
  by simp


lemma typeof_guarded_num:
  "typeof_guarded h w p f = Inr v \<Longrightarrow> js_get (js_get w p) f = VNum n \<Longrightarrow> v = VNum n"
  by (auto dest: typeof_guarded_cases)

lemma na_guarded_num:
  "na_guarded h w p f = Inr v \<Longrightarrow> js_get (js_get w p) f = VNum n \<Longrightarrow> v = VNum n"
  by (auto dest: na_guarded_cases)

lemma typeof_guarded_missing:
  "typeof_guarded h w p f = Inr v \<Longrightarrow> js_get (js_get w p) f = VUndefined \<Longrightarrow> v = VNull"
  by (auto dest: typeof_guarded_cases)

lemma na_guarded_missing:
  "na_guarded h w p f = Inr v \<Longrightarrow> js_get (js_get w p) f = VUndefined \<Longrightarrow> v = VNull"
  by (auto dest: na_guarded_cases)

lemma truthy_guarded_falsy:
  "truthy_guarded h w p f d = Inr v \<Longrightarrow> \<not> truthy (js_get (js_get w p) f) \<Longrightarrow> v = d"
  by (auto dest: truthy_guarded_cases)

lemma StringToNumber_NA: "StringToNumber ''N/A'' = NaN"
  by code_simp

lemma blank_run:
  "mapToPrimitives sample_host blank_doc = Inr (VObj
     [(''observed_at'', VStr ''2023-11-14T22:13:20.123Z''),
      (''location'', VStr ''Unknown''), (''clouds'', VNum (Fin 0)),
      (''main'', VNum (Fin 0)), (''precipitation'', VNum (Fin 0)),
      (''weather'', VNull), (''wind'', VNum (Fin 0)),
      (''raw_payload'', VObj
        [(''icon'', VNull), (''humidity'', VNum (Fin 0)), (''pressure'', VNum (Fin 0)),
         (''wind_gust'', VNum (Fin 0)), (''wind_deg'', VNum (Fin 0)), (''rain_3h'', VNum (Fin 0)),
         (''snow_3h'', VNum (Fin 0))])])"
  by code_simp

lemma rain_snow_run:
  "mapToPrimitives sample_host rain_snow_doc = Inr (VObj
     [(''observed_at'', VStr ''2023-11-14T22:13:20.123Z''),
      (''location'', VStr ''Unknown''), (''clouds'', VNull),
      (''main'', VNull), (''precipitation'', VNum (Fin (6 / 5))),
      (''weather'', VNull), (''wind'', VNull),
      (''raw_payload'', VObj
        [(''icon'', VNull), (''humidity'', VNull), (''pressure'', VNull),
         (''wind_gust'', VNull), (''wind_deg'', VNull), (''rain_3h'', VNum (Fin (6 / 5))),
         (''snow_3h'', VNum (Fin 3))])])"
  by code_simp

lemma na_guarded_source:
  assumes "na_guarded h w p f = Inr v"
  shows "Inr v =
     (if js_get (js_get w p) f \<noteq> VUndefined \<and> js_get (js_get w p) f \<noteq> VStr ''N/A''
      then js_Number h (js_get (js_get w p) f) else Inr VNull)"
  using na_guarded_cases [OF assms] by (auto simp: js_Number_def)

lemma na_guarded_null_iff:
  assumes "na_guarded h w p f = Inr v"
  shows "(v = VNull) =
     (js_get (js_get w p) f = VUndefined \<or> js_get (js_get w p) f = VStr ''N/A'')"
  using na_guarded_cases [OF assms] by auto

lemma snow_only_run:
  "mapToPrimitives sample_host snow_only_doc = Inr (VObj
     [(''observed_at'', VStr ''2023-11-14T22:13:20.123Z''),
      (''location'', VStr ''Unknown''), (''clouds'', VNull),
      (''main'', VNull), (''precipitation'', VNum (Fin 4)),
      (''weather'', VNull), (''wind'', VNull),
      (''raw_payload'', VObj
        [(''icon'', VNull), (''humidity'', VNull), (''pressure'', VNull),
         (''wind_gust'', VNull), (''wind_deg'', VNull), (''rain_3h'', VNull),
         (''snow_3h'', VNum (Fin 4))])])"
  by code_simp

lemma na_rain_run:
  "mapToPrimitives sample_host na_rain_doc = Inr (VObj
     [(''observed_at'', VStr ''2023-11-14T22:13:20.123Z''),
      (''location'', VStr ''Unknown''), (''clouds'', VNull),
      (''main'', VNull), (''precipitation'', VNum (Fin 4)),
      (''weather'', VNull), (''wind'', VNull),
      (''raw_payload'', VObj
        [(''icon'', VNull), (''humidity'', VNull), (''pressure'', VNull),
         (''wind_gust'', VNull), (''wind_deg'', VNull), (''rain_3h'', VNull),
         (''snow_3h'', VNum (Fin 4))])])"
  by code_simp

subsection \<open>The store under a run\<close>

lemma rows_with_id_upsert_row:
  assumes "js_get r ''id'' = VStr tid"
  shows "rows_with_id tid (upsert_row ''id'' rows r) = max 1 (rows_with_id tid rows)"
  using assms by (induction rows) (auto simp: rows_with_id_def)

lemma pushObservation_store:
  assumes "pushObservation env w db = Inr (r, db')"
  shows "(db' = db \<and> \<not> ok r) \<or>
         (\<exists>record. js_get record ''id'' = VStr (PUSH_TARGET_ID env) \<and>
            requests db' = requests db @ [Upsert [record] ''id''] \<and>
            (if ok r then table db' = upsert_row ''id'' (table db) record
             else table db' = table db))"
proof (cases "pushObservation_try env w db")
  case (Inl e)
  with assms show ?thesis
    by (auto simp: pushObservation_def)
next
  case (Inr res)
  with assms have body: "pushObservation_try env w db = Inr (r, db')"
    by (simp add: pushObservation_def)
  then show ?thesis
    unfolding pushObservation_try_def Let_def upsert_def
    by (auto dest!: and_then_Inr split: if_splits verdict.splits)
qed

lemma runs_requests:
  "\<exists>new. requests (runs env ws db) = requests db @ new \<and>
     list_all (targets (PUSH_TARGET_ID env)) new \<and> length new \<le> length ws"
proof (induction ws arbitrary: db)
  case Nil
  show ?case by simp
next
  case (Cons w ws)
  show ?case
  proof (cases "pushObservation env w db")
    case (Inl e)
    then show ?thesis by simp
  next
    case (Inr res)
    obtain r db' where res: "res = (r, db')" by (cases res)
    from Cons.IH [of db'] obtain new where
      new: "requests (runs env ws db') = requests db' @ new"
        "list_all (targets (PUSH_TARGET_ID env)) new" "length new \<le> length ws"
      by blast
    from pushObservation_store [OF Inr [unfolded res]] consider
      "db' = db" | row where "js_get row ''id'' = VStr (PUSH_TARGET_ID env)"
        "requests db' = requests db @ [Upsert [row] ''id'']"
      by blast
    then show ?thesis
    proof cases
      case 1
      with new Inr res show ?thesis by auto
    next
      case 2
      with new Inr res have
        "requests (runs env (w # ws) db) = requests db @ (Upsert [row] ''id'' # new)"
        "list_all (targets (PUSH_TARGET_ID env)) (Upsert [row] ''id'' # new)"
        "length (Upsert [row] ''id'' # new) \<le> length (w # ws)"
        by simp_all
      then show ?thesis by blast
    qed
  qed
qed

lemma pushObservation_rows:
  assumes "pushObservation env w db = Inr (r, db')"
    and "rows_with_id (PUSH_TARGET_ID env) (table db) \<le> 1"
  shows "rows_with_id (PUSH_TARGET_ID env) (table db') \<le> 1 \<and>
         (if ok r then rows_with_id (PUSH_TARGET_ID env) (table db') = 1 else table db' = table db)"
  using pushObservation_store [OF assms(1)] assms(2)
  by (auto simp: rows_with_id_upsert_row split: if_splits)

lemma runs_rows:
  "rows_with_id (PUSH_TARGET_ID env) (table db) \<le> 1 \<Longrightarrow>
   rows_with_id (PUSH_TARGET_ID env) (table (runs env ws db)) \<le> 1"
proof (induction ws arbitrary: db)
  case Nil
  then show ?case by simp
next
  case (Cons w ws)
  show ?case
  proof (cases "pushObservation env w db")
    case (Inl e)
    with Cons.prems show ?thesis by simp
  next
    case (Inr res)
    obtain r db' where res: "res = (r, db')" by (cases res)
    from pushObservation_rows [OF Inr [unfolded res] Cons.prems]
    have "rows_with_id (PUSH_TARGET_ID env) (table db') \<le> 1" by simp
    from Cons.IH [OF this] Inr res show ?thesis by simp
  qed
qed

lemma sample_runs:
  "runs None [world_fine, world_denied, world_fine] empty_store =
     \<lparr>table = [sample_row], requests = replicate 3 (Upsert [sample_row] ''id'')\<rparr>"
  by (simp add: pushObservation_def pushObservation_try_def world_fine_def world_denied_def
      empty_store_def res_ok_def scenario_run upsert_def PUSH_TARGET_ID_def numeral_3_eq_3
      Let_def sample_row_def)

subsection \<open>The reachable states of the scheduler\<close>

lemma after_snoc: "after (es @ [e]) = step (after es) e"
  by (simp add: after_def)

lemma consistent_launch: "consistent launch"
  by (simp add: consistent_def launch_def)

lemma consistent_step: "consistent p \<Longrightarrow> consistent (step p e)"
  by (cases e; cases "intervalHandle p")
     (simp_all add: consistent_def startPusher_def setInterval_def post_stop_def
        clearInterval_def tick_def)

lemma consistent_after: "consistent (after es)"
proof (induction es rule: rev_induct)
  case Nil
  show ?case by (simp add: after_def consistent_launch)
next
  case (snoc e es)
  then show ?case by (simp add: after_snoc consistent_step)
qed

lemma startPusher_running: "intervalHandle p \<noteq> None \<Longrightarrow> startPusher p = p"
  by (simp add: startPusher_def)

lemma startPusher_idle:
  assumes "consistent p" "intervalHandle p = None"
  shows "startPusher p =
     p\<lparr>intervalHandle := Some (Timeout (next_timer p)), timers := [Timeout (next_timer p)],
       next_timer := Suc (next_timer p), started := Suc (started p)\<rparr>"
  using assms by (simp add: startPusher_def setInterval_def consistent_def)

section \<open>The claims\<close>

text \<open>
  C9.  Whenever \<^verbatim>\<open>mapToPrimitives\<close> returns, the result is an object with exactly the eight
  keys of a normalized observation.  \<^verbatim>\<open>observed_at\<close> and \<^verbatim>\<open>location\<close> are strings,
  \<^verbatim>\<open>clouds\<close>, \<^verbatim>\<open>main\<close>, \<^verbatim>\<open>precipitation\<close> and \<^verbatim>\<open>wind\<close> are numbers or null,
  \<^verbatim>\<open>weather\<close> is a string or null, and \<^verbatim>\<open>raw_payload\<close> is an object with exactly the
  seven enumerated keys, \<^verbatim>\<open>icon\<close> a string or null and the six others numbers or null.
  Nothing of the input is passed through: no nested object, no other key.
\<close>

theorem normalized_fields_are_scalars:
  assumes "mapToPrimitives h w = Inr obs"
  shows "\<exists>iso loc c m p wd ws icon hum pr wg wdg r s.
     obs = VObj
       [(''observed_at'', VStr iso), (''location'', VStr loc), (''clouds'', c), (''main'', m),
        (''precipitation'', p), (''weather'', wd), (''wind'', ws),
        (''raw_payload'', VObj
          [(''icon'', icon), (''humidity'', hum), (''pressure'', pr), (''wind_gust'', wg),
           (''wind_deg'', wdg), (''rain_3h'', r), (''snow_3h'', s)])] \<and>
     list_all number_or_null [c, m, p, ws, hum, pr, wg, wdg, r, s] \<and>
     list_all string_or_null [wd, icon]"
proof -
  from assms obtain t loc c tmp hum pr r s wd wi ws wg wdg iso where
    loc: "truthy_guarded h w ''location'' ''name'' (VStr ''Unknown'') = Inr loc" and
    c: "typeof_guarded h w ''clouds'' ''cloudiness_percent'' = Inr c" and
    tmp: "typeof_guarded h w ''main'' ''temperature_c'' = Inr tmp" and
    hum: "typeof_guarded h w ''main'' ''humidity_percent'' = Inr hum" and
    pr: "typeof_guarded h w ''main'' ''pressure_hpa'' = Inr pr" and
    r: "na_guarded h w ''precipitation'' ''rain_3h_mm'' = Inr r" and
    s: "na_guarded h w ''precipitation'' ''snow_3h_mm'' = Inr s" and
    wd: "truthy_guarded h w ''weather'' ''description'' VNull = Inr wd" and
    wi: "truthy_guarded h w ''weather'' ''icon'' VNull = Inr wi" and
    ws: "typeof_guarded h w ''wind'' ''speed_ms'' = Inr ws" and
    wg: "typeof_guarded h w ''wind'' ''gust_ms'' = Inr wg" and
    wdg: "typeof_guarded h w ''wind'' ''direction_degrees'' = Inr wdg" and
    obs: "obs = VObj
       [(''observed_at'', VStr iso), (''location'', loc), (''clouds'', c), (''main'', tmp),
        (''precipitation'', nullish (nullish r s) VNull), (''weather'', wd), (''wind'', ws),
        (''raw_payload'', VObj
          [(''icon'', wi), (''humidity'', hum), (''pressure'', pr), (''wind_gust'', wg),
           (''wind_deg'', wdg), (''rain_3h'', r), (''snow_3h'', s)])]"
    by (rule mapToPrimitives_shape)
  from loc obtain l where l: "loc = VStr l"
    by (auto dest: truthy_guarded_cases)
  note nums = typeof_guarded_number [OF c] typeof_guarded_number [OF tmp]
    typeof_guarded_number [OF hum] typeof_guarded_number [OF pr] na_guarded_number [OF r]
    na_guarded_number [OF s] typeof_guarded_number [OF ws] typeof_guarded_number [OF wg]
    typeof_guarded_number [OF wdg]
  note strs = truthy_guarded_string [OF wd] truthy_guarded_string [OF wi]
  have p: "number_or_null (nullish (nullish r s) VNull)"
    using nums by (simp add: nullish_number)
  show ?thesis
    unfolding obs l using nums strs p by simp
qed

theorem normalized_fields_are_scalars_witness:
  "\<exists>obs iso loc c m p wd ws icon hum pr wg wdg r s.
     mapToPrimitives sample_host scenario_doc = Inr obs \<and>
     obs = VObj
       [(''observed_at'', VStr iso), (''location'', VStr loc), (''clouds'', c), (''main'', m),
        (''precipitation'', p), (''weather'', wd), (''wind'', ws),
        (''raw_payload'', VObj
          [(''icon'', icon), (''humidity'', hum), (''pressure'', pr), (''wind_gust'', wg),
           (''wind_deg'', wdg), (''rain_3h'', r), (''snow_3h'', s)])] \<and>
     list_all number_or_null [c, m, p, ws, hum, pr, wg, wdg, r, s] \<and>
     list_all string_or_null [wd, icon]"
  using normalized_fields_are_scalars [OF scenario_run] scenario_run by blast

text \<open>
  C8, as stated over the source document, fails: with \<^verbatim>\<open>rain_3h_mm\<close> a JSON \<^verbatim>\<open>null\<close>
  and \<^verbatim>\<open>snow_3h_mm\<close> 4, the rain amount is not taken as missing.  \<^verbatim>\<open>null !== undefined\<close>
  holds and \<^verbatim>\<open>null\<close> is not \<^verbatim>\<open>"N/A"\<close>, so \<^verbatim>\<open>rain3h\<close> is \<^verbatim>\<open>Number(null)\<close>, that is 0,
  and \<^verbatim>\<open>precipitation\<close> is 0, not the snow amount 4.
\<close>

theorem precipitation_null_rain_is_zero:
  "mapToPrimitives sample_host null_rain_doc = Inr (VObj
     [(''observed_at'', VStr ''2023-11-14T22:13:20.123Z''),
      (''location'', VStr ''Unknown''), (''clouds'', VNull),
      (''main'', VNull), (''precipitation'', VNum (Fin 0)),
      (''weather'', VNull), (''wind'', VNull),
      (''raw_payload'', VObj
        [(''icon'', VNull), (''humidity'', VNull), (''pressure'', VNull),
         (''wind_gust'', VNull), (''wind_deg'', VNull), (''rain_3h'', VNum (Fin 0)),
         (''snow_3h'', VNum (Fin 4))])])"
  by code_simp

text \<open>
  C8, amended.  Whenever \<^verbatim>\<open>mapToPrimitives\<close> returns, \<^verbatim>\<open>precipitation\<close> is decided by the
  source document: it is \<^verbatim>\<open>Number(rain_3h_mm)\<close> when \<^verbatim>\<open>rain_3h_mm\<close> is present (not
  \<^verbatim>\<open>undefined\<close>, which a missing or non-object \<^verbatim>\<open>precipitation\<close> also gives) and is not
  the string \<^verbatim>\<open>"N/A"\<close>; otherwise it is \<^verbatim>\<open>Number(snow_3h_mm)\<close> when \<^verbatim>\<open>snow_3h_mm\<close> is
  present and not \<^verbatim>\<open>"N/A"\<close>; otherwise it is null.  \<^verbatim>\<open>raw_payload.rain_3h\<close> and
  \<^verbatim>\<open>raw_payload.snow_3h\<close> are the two amounts so normalized, and \<^verbatim>\<open>precipitation\<close> is the
  first of them that is not null: never a sum.  When both source amounts are numbers,
  \<^verbatim>\<open>precipitation\<close> is the rain amount.
\<close>

theorem precipitation_from_source:
  assumes "mapToPrimitives h w = Inr obs"
  shows
    "Inr (js_get obs ''precipitation'') =
       (if js_get (js_get w ''precipitation'') ''rain_3h_mm'' \<noteq> VUndefined \<and>
           js_get (js_get w ''precipitation'') ''rain_3h_mm'' \<noteq> VStr ''N/A''
        then js_Number h (js_get (js_get w ''precipitation'') ''rain_3h_mm'')
        else if js_get (js_get w ''precipitation'') ''snow_3h_mm'' \<noteq> VUndefined \<and>
                js_get (js_get w ''precipitation'') ''snow_3h_mm'' \<noteq> VStr ''N/A''
        then js_Number h (js_get (js_get w ''precipitation'') ''snow_3h_mm'')
        else Inr VNull) \<and>
     Inr (js_get (js_get obs ''raw_payload'') ''rain_3h'') =
       (if js_get (js_get w ''precipitation'') ''rain_3h_mm'' \<noteq> VUndefined \<and>
           js_get (js_get w ''precipitation'') ''rain_3h_mm'' \<noteq> VStr ''N/A''
        then js_Number h (js_get (js_get w ''precipitation'') ''rain_3h_mm'')
        else Inr VNull) \<and>
     Inr (js_get (js_get obs ''raw_payload'') ''snow_3h'') =
       (if js_get (js_get w ''precipitation'') ''snow_3h_mm'' \<noteq> VUndefined \<and>
           js_get (js_get w ''precipitation'') ''snow_3h_mm'' \<noteq> VStr ''N/A''
        then js_Number h (js_get (js_get w ''precipitation'') ''snow_3h_mm'')
        else Inr VNull) \<and>
     js_get obs ''precipitation'' =
       (if js_get (js_get obs ''raw_payload'') ''rain_3h'' \<noteq> VNull
        then js_get (js_get obs ''raw_payload'') ''rain_3h''
        else if js_get (js_get obs ''raw_payload'') ''snow_3h'' \<noteq> VNull
        then js_get (js_get obs ''raw_payload'') ''snow_3h''
        else VNull) \<and>
     (\<forall>a b. js_get (js_get w ''precipitation'') ''rain_3h_mm'' = VNum a \<and>
            js_get (js_get w ''precipitation'') ''snow_3h_mm'' = VNum b \<longrightarrow>
            js_get obs ''precipitation'' = VNum a)"
proof -
  from assms obtain t loc c tmp hum pr r s wd wi ws wg wdg iso where
    r: "na_guarded h w ''precipitation'' ''rain_3h_mm'' = Inr r" and
    s: "na_guarded h w ''precipitation'' ''snow_3h_mm'' = Inr s" and
    obs: "obs = VObj
       [(''observed_at'', VStr iso), (''location'', loc), (''clouds'', c), (''main'', tmp),
        (''precipitation'', nullish (nullish r s) VNull), (''weather'', wd), (''wind'', ws),
        (''raw_payload'', VObj
          [(''icon'', wi), (''humidity'', hum), (''pressure'', pr), (''wind_gust'', wg),
           (''wind_deg'', wdg), (''rain_3h'', r), (''snow_3h'', s)])]"
    by (rule mapToPrimitives_shape)
  let ?rain = "js_get (js_get w ''precipitation'') ''rain_3h_mm''"
  let ?snow = "js_get (js_get w ''precipitation'') ''snow_3h_mm''"
  have defined: "r \<noteq> VUndefined" "s \<noteq> VUndefined"
    using na_guarded_number [OF r] na_guarded_number [OF s] by auto
  have first: "nullish (nullish r s) VNull = (if r \<noteq> VNull then r else if s \<noteq> VNull then s else VNull)"
    using defined by (simp add: nullish_def)
  have rain: "Inr r = (if ?rain \<noteq> VUndefined \<and> ?rain \<noteq> VStr ''N/A'' then js_Number h ?rain else Inr VNull)"
    by (rule na_guarded_source [OF r])
  have snow: "Inr s = (if ?snow \<noteq> VUndefined \<and> ?snow \<noteq> VStr ''N/A'' then js_Number h ?snow else Inr VNull)"
    by (rule na_guarded_source [OF s])
  have rnull: "(r = VNull) = (?rain = VUndefined \<or> ?rain = VStr ''N/A'')"
    by (rule na_guarded_null_iff [OF r])
  have snull: "(s = VNull) = (?snow = VUndefined \<or> ?snow = VStr ''N/A'')"
    by (rule na_guarded_null_iff [OF s])
  have precip: "Inr (nullish (nullish r s) VNull) =
       (if ?rain \<noteq> VUndefined \<and> ?rain \<noteq> VStr ''N/A'' then js_Number h ?rain
        else if ?snow \<noteq> VUndefined \<and> ?snow \<noteq> VStr ''N/A'' then js_Number h ?snow
        else Inr VNull)"
  proof (cases "r = VNull")
    case False
    with rnull rain first show ?thesis by auto
  next
    case True
    note rn = this
    show ?thesis
    proof (cases "s = VNull")
      case False
      with rn rnull snull snow first show ?thesis by auto
    next
      case True
      with rn rnull snull first show ?thesis by auto
    qed
  qed
  have both: "nullish (nullish r s) VNull = VNum a" if "?rain = VNum a" for a
    using na_guarded_num [OF r that] first by simp
  have p: "js_get obs ''precipitation'' = nullish (nullish r s) VNull"
    and pr: "js_get (js_get obs ''raw_payload'') ''rain_3h'' = r"
    and ps: "js_get (js_get obs ''raw_payload'') ''snow_3h'' = s"
    unfolding obs by simp_all
  show ?thesis
    unfolding p pr ps using precip rain snow first both by simp
qed

theorem precipitation_from_source_witness:
  "(\<exists>obs. mapToPrimitives sample_host rain_snow_doc = Inr obs \<and>
      js_get obs ''precipitation'' = VNum (Fin (6 / 5))) \<and>
   (\<exists>obs. mapToPrimitives sample_host snow_only_doc = Inr obs \<and>
      js_get obs ''precipitation'' = VNum (Fin 4)) \<and>
   (\<exists>obs. mapToPrimitives sample_host na_rain_doc = Inr obs \<and>
      js_get obs ''precipitation'' = VNum (Fin 4)) \<and>
   (\<exists>obs. mapToPrimitives sample_host scenario_doc = Inr obs \<and>
      js_get obs ''precipitation'' = VNull)"
  using precipitation_from_source [OF rain_snow_run] precipitation_from_source [OF snow_only_run]
    precipitation_from_source [OF na_rain_run] precipitation_from_source [OF scenario_run]
    rain_snow_run snow_only_run na_rain_run scenario_run
  by simp

text \<open>
  C10.  String fields are tested for truthiness: an empty \<^verbatim>\<open>weather.description\<close> or
  \<^verbatim>\<open>weather.icon\<close> gives null, an empty \<^verbatim>\<open>location.name\<close> gives \<^verbatim>\<open>"Unknown"\<close>, an empty
  \<^verbatim>\<open>datetime_utc\<close> gives the time of ingestion.  Numeric fields are tested for presence:
  a source value 0 is the output value 0, in each of the nine numeric fields.
\<close>

theorem truthiness_and_presence:
  assumes "mapToPrimitives h w = Inr obs"
  shows
    "(js_get (js_get w ''weather'') ''description'' = VStr [] \<longrightarrow> js_get obs ''weather'' = VNull) \<and>
     (js_get (js_get w ''weather'') ''icon'' = VStr [] \<longrightarrow>
        js_get (js_get obs ''raw_payload'') ''icon'' = VNull) \<and>
     (js_get (js_get w ''location'') ''name'' = VStr [] \<longrightarrow>
        js_get obs ''location'' = VStr ''Unknown'') \<and>
     (js_get w ''datetime_utc'' = VStr [] \<longrightarrow>
        toISOString (Some (now h)) = Inr (case js_get obs ''observed_at'' of VStr stamp \<Rightarrow> stamp | _ \<Rightarrow> [])) \<and>
     (js_get (js_get w ''clouds'') ''cloudiness_percent'' = VNum (Fin 0) \<longrightarrow>
        js_get obs ''clouds'' = VNum (Fin 0)) \<and>
     (js_get (js_get w ''main'') ''temperature_c'' = VNum (Fin 0) \<longrightarrow>
        js_get obs ''main'' = VNum (Fin 0)) \<and>
     (js_get (js_get w ''main'') ''humidity_percent'' = VNum (Fin 0) \<longrightarrow>
        js_get (js_get obs ''raw_payload'') ''humidity'' = VNum (Fin 0)) \<and>
     (js_get (js_get w ''main'') ''pressure_hpa'' = VNum (Fin 0) \<longrightarrow>
        js_get (js_get obs ''raw_payload'') ''pressure'' = VNum (Fin 0)) \<and>
     (js_get (js_get w ''precipitation'') ''rain_3h_mm'' = VNum (Fin 0) \<longrightarrow>
        js_get (js_get obs ''raw_payload'') ''rain_3h'' = VNum (Fin 0)) \<and>
     (js_get (js_get w ''precipitation'') ''snow_3h_mm'' = VNum (Fin 0) \<longrightarrow>
        js_get (js_get obs ''raw_payload'') ''snow_3h'' = VNum (Fin 0)) \<and>
     (js_get (js_get w ''wind'') ''speed_ms'' = VNum (Fin 0) \<longrightarrow>
        js_get obs ''wind'' = VNum (Fin 0)) \<and>
     (js_get (js_get w ''wind'') ''gust_ms'' = VNum (Fin 0) \<longrightarrow>
        js_get (js_get obs ''raw_payload'') ''wind_gust'' = VNum (Fin 0)) \<and>
     (js_get (js_get w ''wind'') ''direction_degrees'' = VNum (Fin 0) \<longrightarrow>
        js_get (js_get obs ''raw_payload'') ''wind_deg'' = VNum (Fin 0))"
proof -
  from assms obtain t loc c tmp hum pr r s wd wi ws wg wdg iso where
    t: "observedAt h w = Inr t" and iso: "toISOString t = Inr iso" and
    loc: "truthy_guarded h w ''location'' ''name'' (VStr ''Unknown'') = Inr loc" and
    c: "typeof_guarded h w ''clouds'' ''cloudiness_percent'' = Inr c" and
    tmp: "typeof_guarded h w ''main'' ''temperature_c'' = Inr tmp" and
    hum: "typeof_guarded h w ''main'' ''humidity_percent'' = Inr hum" and
    pr: "typeof_guarded h w ''main'' ''pressure_hpa'' = Inr pr" and
    r: "na_guarded h w ''precipitation'' ''rain_3h_mm'' = Inr r" and
    s: "na_guarded h w ''precipitation'' ''snow_3h_mm'' = Inr s" and
    wd: "truthy_guarded h w ''weather'' ''description'' VNull = Inr wd" and
    wi: "truthy_guarded h w ''weather'' ''icon'' VNull = Inr wi" and
    ws: "typeof_guarded h w ''wind'' ''speed_ms'' = Inr ws" and
    wg: "typeof_guarded h w ''wind'' ''gust_ms'' = Inr wg" and
    wdg: "typeof_guarded h w ''wind'' ''direction_degrees'' = Inr wdg" and
    obs: "obs = VObj
       [(''observed_at'', VStr iso), (''location'', loc), (''clouds'', c), (''main'', tmp),
        (''precipitation'', nullish (nullish r s) VNull), (''weather'', wd), (''wind'', ws),
        (''raw_payload'', VObj
          [(''icon'', wi), (''humidity'', hum), (''pressure'', pr), (''wind_gust'', wg),
           (''wind_deg'', wdg), (''rain_3h'', r), (''snow_3h'', s)])]"
    by (rule mapToPrimitives_shape)
  have date: "toISOString (Some (now h)) = Inr iso" if "js_get w ''datetime_utc'' = VStr []"
    using t iso that by (auto simp: observedAt_def dest!: and_then_Inr member_Inr)
  have wd0: "wd = VNull" if "js_get (js_get w ''weather'') ''description'' = VStr []"
    using truthy_guarded_falsy [OF wd] that by simp
  have wi0: "wi = VNull" if "js_get (js_get w ''weather'') ''icon'' = VStr []"
    using truthy_guarded_falsy [OF wi] that by simp
  have loc0: "loc = VStr ''Unknown''" if "js_get (js_get w ''location'') ''name'' = VStr []"
    using truthy_guarded_falsy [OF loc] that by simp
  note zeros = typeof_guarded_num [OF c] typeof_guarded_num [OF tmp] typeof_guarded_num [OF hum]
    typeof_guarded_num [OF pr] na_guarded_num [OF r] na_guarded_num [OF s]
    typeof_guarded_num [OF ws] typeof_guarded_num [OF wg] typeof_guarded_num [OF wdg]
  show ?thesis
    unfolding obs by (simp add: date wd0 wi0 loc0 zeros)
qed

theorem truthiness_and_presence_witness:
  "\<exists>obs. mapToPrimitives sample_host blank_doc = Inr obs \<and>
     js_get obs ''weather'' = VNull \<and>
     js_get (js_get obs ''raw_payload'') ''icon'' = VNull \<and>
     js_get obs ''location'' = VStr ''Unknown'' \<and>
     js_get obs ''observed_at'' = VStr ''2023-11-14T22:13:20.123Z'' \<and>
     js_get obs ''clouds'' = VNum (Fin 0) \<and>
     js_get obs ''main'' = VNum (Fin 0) \<and>
     js_get obs ''wind'' = VNum (Fin 0) \<and>
     js_get (js_get obs ''raw_payload'') ''humidity'' = VNum (Fin 0) \<and>
     js_get (js_get obs ''raw_payload'') ''rain_3h'' = VNum (Fin 0)"
  using truthiness_and_presence [OF blank_run] blank_run by simp

text \<open>
  C1.  The claim is that \<^verbatim>\<open>"N/A"\<close> in any of the nine numeric source fields gives null.
  The source compares with \<^verbatim>\<open>"N/A"\<close> in \<^verbatim>\<open>rain3h\<close> and \<^verbatim>\<open>snow3h\<close> only; the seven other
  fields pass the string to \<^verbatim>\<open>Number\<close>.  On the document with \<^verbatim>\<open>"N/A"\<close> in all nine,
  under any engine, rain, snow and precipitation are null, and cloudiness, temperature,
  wind speed, humidity, pressure, gust and direction are \<^verbatim>\<open>NaN\<close>.
\<close>

theorem na_in_numeric_fields:
  "\<exists>stamp. mapToPrimitives h na_doc = Inr (VObj
     [(''observed_at'', VStr stamp),
      (''location'', VStr ''Unknown''), (''clouds'', VNum NaN),
      (''main'', VNum NaN), (''precipitation'', VNull),
      (''weather'', VNull), (''wind'', VNum NaN),
      (''raw_payload'', VObj
        [(''icon'', VNull), (''humidity'', VNum NaN), (''pressure'', VNum NaN),
         (''wind_gust'', VNum NaN), (''wind_deg'', VNum NaN), (''rain_3h'', VNull),
         (''snow_3h'', VNull)])])"
proof -
  from toISOString_Some obtain stamp where "toISOString (Some (now h)) = Inr stamp" ..
  then show ?thesis
    by (simp add: mapToPrimitives_def na_doc_def observedAt_def member_def typeof_guarded_def
        na_guarded_def truthy_guarded_def js_Number_def nullish_def StringToNumber_NA)
qed

text \<open>
  C7.  The scenario document of the specification, under any engine: \<^verbatim>\<open>main\<close> is 21.5,
  \<^verbatim>\<open>weather\<close> is \<^verbatim>\<open>"Clear"\<close>, \<^verbatim>\<open>location\<close> is \<^verbatim>\<open>"Unknown"\<close>, \<^verbatim>\<open>clouds\<close>, \<^verbatim>\<open>precipitation\<close>
  and \<^verbatim>\<open>wind\<close> are null, and \<^verbatim>\<open>raw_payload.humidity\<close> is \<^verbatim>\<open>NaN\<close>, where the scenario
  expects null.
\<close>

theorem scenario_humidity_is_nan:
  "\<exists>stamp. mapToPrimitives h scenario_doc = Inr (VObj
     [(''observed_at'', VStr stamp),
      (''location'', VStr ''Unknown''), (''clouds'', VNull),
      (''main'', VNum (Fin (43 / 2))), (''precipitation'', VNull),
      (''weather'', VStr ''Clear''), (''wind'', VNull),
      (''raw_payload'', VObj
        [(''icon'', VNull), (''humidity'', VNum NaN), (''pressure'', VNull),
         (''wind_gust'', VNull), (''wind_deg'', VNull), (''rain_3h'', VNull),
         (''snow_3h'', VNull)])])"
proof -
  from toISOString_Some obtain stamp where "toISOString (Some (now h)) = Inr stamp" ..
  then show ?thesis
    by (simp add: mapToPrimitives_def scenario_doc_def observedAt_def member_def typeof_guarded_def
        na_guarded_def truthy_guarded_def js_Number_def js_String_def nullish_def StringToNumber_NA)
qed

text \<open>
  C2, as stated, fails: the document \<^verbatim>\<open>null\<close> and a name that is an object with an own
  \<^verbatim>\<open>toString\<close> property raise a TypeError, a \<^verbatim>\<open>datetime_utc\<close> that is no date raises a
  RangeError, and a temperature of the wrong type comes out as \<^verbatim>\<open>NaN\<close>, not null.
\<close>

theorem normalizer_raises:
  "mapToPrimitives sample_host VNull = Inl TypeError \<and>
   mapToPrimitives sample_host shadowed_doc = Inl TypeError \<and>
   mapToPrimitives sample_host undated_doc = Inl RangeError \<and>
   mapToPrimitives sample_host warm_doc = Inr (VObj
     [(''observed_at'', VStr ''2023-11-14T22:13:20.123Z''),
      (''location'', VStr ''Unknown''), (''clouds'', VNull),
      (''main'', VNum NaN), (''precipitation'', VNull),
      (''weather'', VNull), (''wind'', VNull),
      (''raw_payload'', VObj
        [(''icon'', VNull), (''humidity'', VNull), (''pressure'', VNull),
         (''wind_gust'', VNull), (''wind_deg'', VNull), (''rain_3h'', VNull),
         (''snow_3h'', VNull)])])"
  by code_simp

text \<open>
  C2, amended.  \<^verbatim>\<open>mapToPrimitives\<close> returns exactly on the documents that are neither
  \<^verbatim>\<open>null\<close> nor \<^verbatim>\<open>undefined\<close>, whose \<^verbatim>\<open>datetime_utc\<close>, when truthy, makes a valid date,
  and whose twelve source fields hold nothing that shadows \<^verbatim>\<open>toString\<close>.  When it returns,
  every field that is missing (itself absent, or under a parent that is absent or not an
  object) has its default: null, \<^verbatim>\<open>"Unknown"\<close> for the location, the time of ingestion
  for \<^verbatim>\<open>observed_at\<close>.
\<close>

theorem normalizer_returns_exactly_when:
  "((\<exists>obs. mapToPrimitives h w = Inr obs) = returns h w) \<and>
   (\<forall>obs. mapToPrimitives h w = Inr obs \<longrightarrow>
     (js_get w ''datetime_utc'' = VUndefined \<longrightarrow>
        toISOString (Some (now h)) =
          Inr (case js_get obs ''observed_at'' of VStr stamp \<Rightarrow> stamp | _ \<Rightarrow> [])) \<and>
     (js_get (js_get w ''location'') ''name'' = VUndefined \<longrightarrow>
        js_get obs ''location'' = VStr ''Unknown'') \<and>
     (js_get (js_get w ''clouds'') ''cloudiness_percent'' = VUndefined \<longrightarrow>
        js_get obs ''clouds'' = VNull) \<and>
     (js_get (js_get w ''main'') ''temperature_c'' = VUndefined \<longrightarrow>
        js_get obs ''main'' = VNull) \<and>
     (js_get (js_get w ''main'') ''humidity_percent'' = VUndefined \<longrightarrow>
        js_get (js_get obs ''raw_payload'') ''humidity'' = VNull) \<and>
     (js_get (js_get w ''main'') ''pressure_hpa'' = VUndefined \<longrightarrow>
        js_get (js_get obs ''raw_payload'') ''pressure'' = VNull) \<and>
     (js_get (js_get w ''precipitation'') ''rain_3h_mm'' = VUndefined \<longrightarrow>
        js_get (js_get obs ''raw_payload'') ''rain_3h'' = VNull) \<and>
     (js_get (js_get w ''precipitation'') ''snow_3h_mm'' = VUndefined \<longrightarrow>
        js_get (js_get obs ''raw_payload'') ''snow_3h'' = VNull) \<and>
     (js_get (js_get w ''precipitation'') ''rain_3h_mm'' = VUndefined \<and>
      js_get (js_get w ''precipitation'') ''snow_3h_mm'' = VUndefined \<longrightarrow>
        js_get obs ''precipitation'' = VNull) \<and>
     (js_get (js_get w ''weather'') ''description'' = VUndefined \<longrightarrow>
        js_get obs ''weather'' = VNull) \<and>
     (js_get (js_get w ''weather'') ''icon'' = VUndefined \<longrightarrow>
        js_get (js_get obs ''raw_payload'') ''icon'' = VNull) \<and>
     (js_get (js_get w ''wind'') ''speed_ms'' = VUndefined \<longrightarrow>
        js_get obs ''wind'' = VNull) \<and>
     (js_get (js_get w ''wind'') ''gust_ms'' = VUndefined \<longrightarrow>
        js_get (js_get obs ''raw_payload'') ''wind_gust'' = VNull) \<and>
     (js_get (js_get w ''wind'') ''direction_degrees'' = VUndefined \<longrightarrow>
        js_get (js_get obs ''raw_payload'') ''wind_deg'' = VNull))"
proof (intro conjI allI impI)
  show "(\<exists>obs. mapToPrimitives h w = Inr obs) = returns h w"
    using returns_if returns_only_if by blast
next
  fix obs
  assume run: "mapToPrimitives h w = Inr obs"
  then obtain t loc c tmp hum pr r s wd wi ws wg wdg iso where
    t: "observedAt h w = Inr t" and iso: "toISOString t = Inr iso" and
    loc: "truthy_guarded h w ''location'' ''name'' (VStr ''Unknown'') = Inr loc" and
    c: "typeof_guarded h w ''clouds'' ''cloudiness_percent'' = Inr c" and
    tmp: "typeof_guarded h w ''main'' ''temperature_c'' = Inr tmp" and
    hum: "typeof_guarded h w ''main'' ''humidity_percent'' = Inr hum" and
    pr: "typeof_guarded h w ''main'' ''pressure_hpa'' = Inr pr" and
    r: "na_guarded h w ''precipitation'' ''rain_3h_mm'' = Inr r" and
    s: "na_guarded h w ''precipitation'' ''snow_3h_mm'' = Inr s" and
    wd: "truthy_guarded h w ''weather'' ''description'' VNull = Inr wd" and
    wi: "truthy_guarded h w ''weather'' ''icon'' VNull = Inr wi" and
    ws: "typeof_guarded h w ''wind'' ''speed_ms'' = Inr ws" and
    wg: "typeof_guarded h w ''wind'' ''gust_ms'' = Inr wg" and
    wdg: "typeof_guarded h w ''wind'' ''direction_degrees'' = Inr wdg" and
    obs: "obs = VObj
       [(''observed_at'', VStr iso), (''location'', loc), (''clouds'', c), (''main'', tmp),
        (''precipitation'', nullish (nullish r s) VNull), (''weather'', wd), (''wind'', ws),
        (''raw_payload'', VObj
          [(''icon'', wi), (''humidity'', hum), (''pressure'', pr), (''wind_gust'', wg),
           (''wind_deg'', wdg), (''rain_3h'', r), (''snow_3h'', s)])]"
    by (rule mapToPrimitives_shape)
  {
    assume "js_get w ''datetime_utc'' = VUndefined"
    with t iso have "toISOString (Some (now h)) = Inr iso"
      by (auto simp: observedAt_def dest!: and_then_Inr member_Inr)
    then show "toISOString (Some (now h)) =
        Inr (case js_get obs ''observed_at'' of VStr stamp \<Rightarrow> stamp | _ \<Rightarrow> [])"
      by (simp add: obs)
  }
  {
    assume "js_get (js_get w ''location'') ''name'' = VUndefined"
    with truthy_guarded_falsy [OF loc] show "js_get obs ''location'' = VStr ''Unknown''"
      by (simp add: obs)
  }
  {
    assume "js_get (js_get w ''clouds'') ''cloudiness_percent'' = VUndefined"
    with typeof_guarded_missing [OF c] show "js_get obs ''clouds'' = VNull"
      by (simp add: obs)
  }
  {
    assume "js_get (js_get w ''main'') ''temperature_c'' = VUndefined"
    with typeof_guarded_missing [OF tmp] show "js_get obs ''main'' = VNull"
      by (simp add: obs)
  }
  {
    assume "js_get (js_get w ''main'') ''humidity_percent'' = VUndefined"
    with typeof_guarded_missing [OF hum] show "js_get (js_get obs ''raw_payload'') ''humidity'' = VNull"
      by (simp add: obs)
  }
  {
    assume "js_get (js_get w ''main'') ''pressure_hpa'' = VUndefined"
    with typeof_guarded_missing [OF pr] show "js_get (js_get obs ''raw_payload'') ''pressure'' = VNull"
      by (simp add: obs)
  }
  {
    assume "js_get (js_get w ''precipitation'') ''rain_3h_mm'' = VUndefined"
    with na_guarded_missing [OF r] show "js_get (js_get obs ''raw_payload'') ''rain_3h'' = VNull"
      by (simp add: obs)
  }
  {
    assume "js_get (js_get w ''precipitation'') ''snow_3h_mm'' = VUndefined"
    with na_guarded_missing [OF s] show "js_get (js_get obs ''raw_payload'') ''snow_3h'' = VNull"
      by (simp add: obs)
  }
  {
    assume "js_get (js_get w ''precipitation'') ''rain_3h_mm'' = VUndefined \<and>
      js_get (js_get w ''precipitation'') ''snow_3h_mm'' = VUndefined"
    with na_guarded_missing [OF r] na_guarded_missing [OF s]
    show "js_get obs ''precipitation'' = VNull"
      by (simp add: obs nullish_def)
  }
  {
    assume "js_get (js_get w ''weather'') ''description'' = VUndefined"
    with truthy_guarded_falsy [OF wd] show "js_get obs ''weather'' = VNull"
      by (simp add: obs)
  }
  {
    assume "js_get (js_get w ''weather'') ''icon'' = VUndefined"
    with truthy_guarded_falsy [OF wi] show "js_get (js_get obs ''raw_payload'') ''icon'' = VNull"
      by (simp add: obs)
  }
  {
    assume "js_get (js_get w ''wind'') ''speed_ms'' = VUndefined"
    with typeof_guarded_missing [OF ws] show "js_get obs ''wind'' = VNull"
      by (simp add: obs)
  }
  {
    assume "js_get (js_get w ''wind'') ''gust_ms'' = VUndefined"
    with typeof_guarded_missing [OF wg] show "js_get (js_get obs ''raw_payload'') ''wind_gust'' = VNull"
      by (simp add: obs)
  }
  {
    assume "js_get (js_get w ''wind'') ''direction_degrees'' = VUndefined"
    with typeof_guarded_missing [OF wdg] show "js_get (js_get obs ''raw_payload'') ''wind_deg'' = VNull"
      by (simp add: obs)
  }
qed

theorem normalizer_returns_exactly_when_witness:
  "returns sample_host scenario_doc \<and>
   (\<exists>obs. mapToPrimitives sample_host scenario_doc = Inr obs \<and>
      js_get obs ''observed_at'' = VStr ''2023-11-14T22:13:20.123Z'' \<and>
      js_get obs ''location'' = VStr ''Unknown'' \<and>
      js_get obs ''clouds'' = VNull \<and>
      js_get obs ''precipitation'' = VNull \<and>
      js_get obs ''wind'' = VNull \<and>
      js_get (js_get obs ''raw_payload'') ''icon'' = VNull \<and>
      js_get (js_get obs ''raw_payload'') ''pressure'' = VNull)"
  using normalizer_returns_exactly_when [of sample_host scenario_doc] scenario_run
  by (simp add: scenario_doc_def)

text \<open>
  C3.  \<^verbatim>\<open>pushObservation\<close> never raises: in every world and on every store it returns a
  result.  The result is a failure carrying what was thrown when the transport call
  fails, when the status is outside 200 to 299 (\<^verbatim>\<open>fetch status\<close> with the status), when
  the body is not JSON, when the normalizer raises, and when the store client throws; it
  is a failure carrying the store's error when the store rejects the upsert; and it is
  a success exactly when every stage went through.
\<close>

theorem pushObservation_always_returns:
  "\<exists>r db'. pushObservation env w db = Inr (r, db') \<and>
     (\<forall>e. fetched w = Inl e \<longrightarrow> r = Failure (Inl e)) \<and>
     (\<forall>res. fetched w = Inr res \<and> \<not> res_ok res \<longrightarrow>
        r = Failure (Inl (FetchStatus (status res)))) \<and>
     (\<forall>res e. fetched w = Inr res \<and> res_ok res \<and> json res = Inl e \<longrightarrow> r = Failure (Inl e)) \<and>
     (\<forall>res doc e. fetched w = Inr res \<and> res_ok res \<and> json res = Inr doc \<and>
        mapToPrimitives (engine w) doc = Inl e \<longrightarrow> r = Failure (Inl e)) \<and>
     (\<forall>res doc obs. fetched w = Inr res \<and> res_ok res \<and> json res = Inr doc \<and>
        mapToPrimitives (engine w) doc = Inr obs \<longrightarrow>
          (\<forall>detail. verdict w = Rejects detail \<longrightarrow> r = Failure (Inr (VObj detail))) \<and>
          (\<forall>e. verdict w = Throws e \<longrightarrow> r = Failure (Inl e)) \<and>
          (verdict w = Accepts \<longrightarrow> ok r)) \<and>
     ok r = (\<exists>res doc obs. fetched w = Inr res \<and> res_ok res \<and> json res = Inr doc \<and>
               mapToPrimitives (engine w) doc = Inr obs \<and> verdict w = Accepts)"
proof (cases "fetched w")
  case (Inl e)
  then show ?thesis
    by (simp add: pushObservation_def pushObservation_try_def)
next
  case (Inr res)
  note res = this
  show ?thesis
  proof (cases "res_ok res")
    case False
    with res show ?thesis
      by (simp add: pushObservation_def pushObservation_try_def)
  next
    case True
    note okay = this
    show ?thesis
    proof (cases "json res")
      case (Inl e)
      with res okay show ?thesis
        by (simp add: pushObservation_def pushObservation_try_def)
    next
      case (Inr doc)
      note doc = this
      show ?thesis
      proof (cases "mapToPrimitives (engine w) doc")
        case (Inl e)
        with res okay doc show ?thesis
          by (simp add: pushObservation_def pushObservation_try_def)
      next
        case (Inr obs)
        with res okay doc show ?thesis
          by (cases "verdict w")
             (simp_all add: pushObservation_def pushObservation_try_def upsert_def Let_def)
      qed
    qed
  qed
qed

theorem pushObservation_always_returns_witness:
  "(\<exists>r db'. pushObservation None world_503 empty_store = Inr (r, db') \<and>
      r = Failure (Inl (FetchStatus 503)) \<and> \<not> ok r) \<and>
   (\<exists>r db'. pushObservation None world_offline empty_store = Inr (r, db') \<and>
      r = Failure (Inl (Rejected ''ECONNREFUSED'')) \<and> \<not> ok r) \<and>
   (\<exists>r db'. pushObservation None world_html empty_store = Inr (r, db') \<and>
      r = Failure (Inl SyntaxError) \<and> \<not> ok r) \<and>
   (\<exists>r db'. pushObservation None world_denied empty_store = Inr (r, db') \<and>
      r = Failure (Inr (VObj [(''message'', VStr ''permission denied'')])) \<and> \<not> ok r) \<and>
   (\<exists>r db'. pushObservation None world_fine empty_store = Inr (r, db') \<and> ok r)"
  using pushObservation_always_returns [of None world_503 empty_store]
    pushObservation_always_returns [of None world_offline empty_store]
    pushObservation_always_returns [of None world_html empty_store]
    pushObservation_always_returns [of None world_denied empty_store]
    pushObservation_always_returns [of None world_fine empty_store]
    scenario_run
  by (simp add: world_503_def world_offline_def world_html_def world_denied_def world_fine_def
      res_ok_def)

text \<open>
  C4.  Over any sequence of runs, every request the store receives is an upsert of one
  row whose \<^verbatim>\<open>id\<close> is the configured target id, keyed on \<^verbatim>\<open>id\<close> (no insert), at most
  one request per run.  Hence a table with at most one row of that id keeps at most one,
  and has exactly one after a run that succeeds.
\<close>

theorem every_persist_upserts_target_id:
  "(\<exists>new. requests (runs env ws db) = requests db @ new \<and>
      list_all (targets (PUSH_TARGET_ID env)) new \<and> length new \<le> length ws) \<and>
   (rows_with_id (PUSH_TARGET_ID env) (table db) \<le> 1 \<longrightarrow>
      rows_with_id (PUSH_TARGET_ID env) (table (runs env ws db)) \<le> 1 \<and>
      (\<forall>w r db'. pushObservation env w db = Inr (r, db') \<and> ok r \<longrightarrow>
         rows_with_id (PUSH_TARGET_ID env) (table db') = 1))"
proof (intro conjI impI allI)
  show "\<exists>new. requests (runs env ws db) = requests db @ new \<and>
      list_all (targets (PUSH_TARGET_ID env)) new \<and> length new \<le> length ws"
    by (rule runs_requests)
next
  assume "rows_with_id (PUSH_TARGET_ID env) (table db) \<le> 1"
  then show "rows_with_id (PUSH_TARGET_ID env) (table (runs env ws db)) \<le> 1"
    by (rule runs_rows)
next
  fix w r db'
  assume one: "rows_with_id (PUSH_TARGET_ID env) (table db) \<le> 1"
    and run: "pushObservation env w db = Inr (r, db') \<and> ok r"
  from run have "pushObservation env w db = Inr (r, db')" and "ok r"
    by simp_all
  with pushObservation_rows [OF this(1) one]
  show "rows_with_id (PUSH_TARGET_ID env) (table db') = 1"
    by simp
qed

theorem every_persist_upserts_target_id_witness:
  "(\<exists>new. requests (runs None [world_fine, world_denied, world_fine] empty_store) = new \<and>
      list_all (targets (PUSH_TARGET_ID None)) new \<and> length new \<le> 3) \<and>
   rows_with_id (PUSH_TARGET_ID None)
     (table (runs None [world_fine, world_denied, world_fine] empty_store)) = 1"
  using every_persist_upserts_target_id [of None "[world_fine, world_denied, world_fine]" empty_store]
    sample_runs
  by (simp add: empty_store_def rows_with_id_def PUSH_TARGET_ID_def sample_row_def)

text \<open>
  C5.  In every state the process can reach by starts, stops and ticks: \<^verbatim>\<open>startPusher\<close>
  twice is \<^verbatim>\<open>startPusher\<close> once; when running it changes nothing; when idle it installs
  one fresh timer, stores its handle and makes one immediate call of
  \<^verbatim>\<open>pushObservation\<close>; after it, and after calling it again, exactly one timer is
  active, so a tick makes exactly one call.
\<close>

theorem start_is_idempotent:
  "startPusher (startPusher (after es)) = startPusher (after es) \<and>
   (intervalHandle (after es) \<noteq> None \<longrightarrow> startPusher (after es) = after es) \<and>
   (intervalHandle (after es) = None \<longrightarrow>
      intervalHandle (startPusher (after es)) = Some (Timeout (next_timer (after es))) \<and>
      timers (startPusher (after es)) = [Timeout (next_timer (after es))] \<and>
      started (startPusher (after es)) = Suc (started (after es))) \<and>
   length (timers (startPusher (after es))) = 1 \<and>
   length (timers (startPusher (startPusher (after es)))) = 1 \<and>
   started (tick (startPusher (startPusher (after es)))) =
     Suc (started (startPusher (after es)))"
proof (cases "intervalHandle (after es)")
  case None
  with startPusher_idle [OF consistent_after None] show ?thesis
    by (simp add: startPusher_running tick_def)
next
  case (Some t)
  with consistent_after [of es] show ?thesis
    by (simp add: startPusher_running tick_def consistent_def)
qed

theorem start_is_idempotent_witness:
  "intervalHandle (after []) = None \<and>
   timers (startPusher (after [])) = [Timeout 0] \<and>
   started (startPusher (after [])) = 1 \<and>
   intervalHandle (after [Start, Tick]) \<noteq> None \<and>
   startPusher (after [Start, Tick]) = after [Start, Tick] \<and>
   length (timers (startPusher (startPusher (after [Start, Tick])))) = 1 \<and>
   started (tick (startPusher (startPusher (after [Start, Tick])))) = 3"
  using start_is_idempotent [of "[]"] start_is_idempotent [of "[Start, Tick]"]
  by (simp add: after_def launch_def startPusher_def setInterval_def tick_def)

text \<open>
  C6.  In every state the process can reach: \<^verbatim>\<open>/stop\<close> when idle answers 400
  \<^verbatim>\<open>not_running\<close> and leaves the process as it is; \<^verbatim>\<open>/stop\<close> when running answers 200
  \<^verbatim>\<open>stopped\<close>, clears the timer and the handle, so that a tick then calls nothing; and in
  whatever order starts and stops came, one timer is active when the handle is set and
  none when it is not.
\<close>

theorem stop_when_idle_is_reported:
  "(intervalHandle (after es) = None \<longrightarrow>
      post_stop (after es) = ((400, VObj [(''status'', VStr ''not_running'')]), after es) \<and>
      get_stop (after es) = ((400, VStr ''not_running''), after es)) \<and>
   (intervalHandle (after es) \<noteq> None \<longrightarrow>
      fst (post_stop (after es)) = (200, VObj [(''status'', VStr ''stopped'')]) \<and>
      fst (get_stop (after es)) = (200, VStr ''stopped'') \<and>
      snd (get_stop (after es)) = snd (post_stop (after es)) \<and>
      intervalHandle (snd (post_stop (after es))) = None \<and>
      timers (snd (post_stop (after es))) = [] \<and>
      started (tick (snd (post_stop (after es)))) = started (after es)) \<and>
   length (timers (after es)) = (if intervalHandle (after es) = None then 0 else 1)"
proof (cases "intervalHandle (after es)")
  case None
  with consistent_after [of es] show ?thesis
    by (simp add: post_stop_def get_stop_def consistent_def)
next
  case (Some t)
  with consistent_after [of es] show ?thesis
    by (simp add: post_stop_def get_stop_def consistent_def clearInterval_def tick_def)
qed

theorem stop_when_idle_is_reported_witness:
  "intervalHandle (after [Start, Stop]) = None \<and>
   post_stop (after [Start, Stop]) =
     ((400, VObj [(''status'', VStr ''not_running'')]), after [Start, Stop]) \<and>
   intervalHandle (after [Start, Stop, Start]) \<noteq> None \<and>
   fst (post_stop (after [Start, Stop, Start])) = (200, VObj [(''status'', VStr ''stopped'')]) \<and>
   timers (snd (post_stop (after [Start, Stop, Start]))) = [] \<and>
   length (timers (after [Start, Stop, Start])) = 1"
  using stop_when_idle_is_reported [of "[Start, Stop]"]
    stop_when_idle_is_reported [of "[Start, Stop, Start]"]
  by (simp add: after_def launch_def startPusher_def setInterval_def post_stop_def
      clearInterval_def)

end
